theory Spec2Isabelle
  imports Complex_Main "HOL-Library.Word" "HOL-Library.AList"
begin

section \<open>JavaScript strings\<close>

text \<open>
  A JavaScript string is a sequence of UTF-16 code units. \<open>str.length\<close>,
  \<open>substring\<close> and a regular expression without the \<open>u\<close> flag all count and
  match code units, so the model does too.
\<close>

type_synonym code_unit = "16 word"
type_synonym jsstring = "code_unit list"

text \<open>The program's string literals are ASCII; \<open>js\<close> reads one as a JavaScript string.\<close>

definition js :: "string \<Rightarrow> jsstring" where
  "js s = map (\<lambda>c. of_nat (of_char c)) s"

definition hyphen :: code_unit where
  "hyphen = 0x2D"

definition dot :: code_unit where
  "dot = 0x2E"

definition slash :: code_unit where
  "slash = 0x2F"

text \<open>The character class \<open>[a-z0-9]\<close>, and its complement \<open>[^a-z0-9]\<close>.\<close>

definition isLowerAlnum :: "code_unit \<Rightarrow> bool" where
  "isLowerAlnum c \<longleftrightarrow> (0x61 \<le> c \<and> c \<le> 0x7A) \<or> (0x30 \<le> c \<and> c \<le> 0x39)"

definition isAsciiUpper :: "code_unit \<Rightarrow> bool" where
  "isAsciiUpper c \<longleftrightarrow> 0x41 \<le> c \<and> c \<le> 0x5A"

definition asciiLower :: "code_unit \<Rightarrow> code_unit" where
  "asciiLower c = (if isAsciiUpper c then c + 0x20 else c)"

text \<open>
  \<open>String.prototype.toLowerCase\<close> applies the Unicode default case conversion. On a
  string of ASCII code units this maps \<open>A\<close>..\<open>Z\<close> to \<open>a\<close>..\<open>z\<close> and keeps every
  other unit. The conversion of a string that holds a non-ASCII unit comes from the
  Unicode tables of the runtime, which are not part of the program: it is the
  parameter \<open>uni\<close>, about which nothing is assumed.
\<close>

definition toLowerCase :: "(jsstring \<Rightarrow> jsstring) \<Rightarrow> jsstring \<Rightarrow> jsstring" where
  "toLowerCase uni s = (if list_all (\<lambda>c. c < 0x80) s then map asciiLower s else uni s)"

text \<open>
  An instance of the parameter for running examples: it lowers ASCII letters only.
  The examples below are ASCII strings, on which the parameter is never consulted.
\<close>

definition asciiOnly :: "jsstring \<Rightarrow> jsstring" where
  "asciiOnly s = map asciiLower s"

section \<open>The sanitizer\<close>

text \<open>
  \<^verbatim>\<open>.replace(/[^a-z0-9]+/g, '-')\<close>: the global replace scans from the left; at a
  unit outside the class the greedy \<open>+\<close> takes the whole run that starts there, one
  hyphen is written for it, and the scan goes on behind the run.
\<close>

function replaceRuns :: "jsstring \<Rightarrow> jsstring" where
  "replaceRuns [] = []"
| "replaceRuns (c # cs) =
     (if \<not> isLowerAlnum c
      then hyphen # replaceRuns (dropWhile (\<lambda>x. \<not> isLowerAlnum x) cs)
      else c # replaceRuns cs)"
  by pat_completeness auto
termination
  by (relation "measure length") (auto simp: less_Suc_eq_le length_dropWhile_le)

text \<open>
  \<^verbatim>\<open>.replace(/^-+|-+$/g, '')\<close>: at position 0 the first alternative removes the
  leading hyphens. Behind them \<open>^\<close> fails, and the second alternative matches at a
  hyphen only when hyphens alone follow up to the end of the string.
\<close>

fun stripTrailingHyphens :: "jsstring \<Rightarrow> jsstring" where
  "stripTrailingHyphens [] = []"
| "stripTrailingHyphens (c # cs) =
     (if c = hyphen \<and> list_all (\<lambda>x. x = hyphen) cs then []
      else c # stripTrailingHyphens cs)"

definition trimHyphens :: "jsstring \<Rightarrow> jsstring" where
  "trimHyphens s = stripTrailingHyphens (dropWhile (\<lambda>c. c = hyphen) s)"

text \<open>
  \<^verbatim>\<open>.substring(0, maxLength)\<close>: a negative end counts as 0 and an end behind the
  string as its length, which is \<open>take (nat maxLength)\<close>.
\<close>

definition sanitizeString :: "(jsstring \<Rightarrow> jsstring) \<Rightarrow> jsstring \<Rightarrow> int \<Rightarrow> jsstring" where
  "sanitizeString uni str maxLength =
     take (nat maxLength) (trimHyphens (replaceRuns (toLowerCase uni str)))"


section \<open>JSON values, the store and the runtime\<close>

text \<open>
  \<open>JSON.parse\<close> yields an untyped value; an object keeps its properties in order. A
  property that is not there reads as \<open>undefined\<close>, which is \<open>None\<close> below. The program
  reads the properties \<open>tools\<close>, \<open>outputs\<close>, \<open>id\<close> and \<open>url\<close> only, which no prototype
  defines.
\<close>

datatype json =
    JNull
  | JBool bool
  | JNum rat
  | JStr jsstring
  | JArr "json list"
  | JObj "(jsstring \<times> json) list"

text \<open>
  A call to the contents API of the store is a read of a path or a write of a content
  to a path, with a commit message and, to overwrite, the \<open>sha\<close> of the version read.
  A reply is a status with a body, or no reply at all (\<open>Rejected\<close>).
\<close>

datatype payload =
    TextContent "8 word list"
  | BinaryContent "8 word list"
  | ManifestContent json

datatype store_call =
    GetFile jsstring
  | PutFile jsstring payload jsstring "jsstring option"

datatype reply_body = NotJson | FileObject "json option" jsstring

datatype reply = Rejected | Reply nat reply_body

datatype effect = FormParsed | Fetched store_call

record runtime =
  replies :: "nat \<Rightarrow> reply"
  effects :: "effect list"
  rng :: "nat \<Rightarrow> nat"
  clock :: jsstring
  unicode :: "jsstring \<Rightarrow> jsstring"

text \<open>
  \<open>generateRandomString\<close> draws \<open>Math.floor(Math.random() * chars.length)\<close> once per
  round of its loop. \<open>Math.random()\<close> lies in \<open>[0, 1)\<close>, so the floor is some index
  below \<open>chars.length\<close>: the generator of the runtime is a sequence of numbers \<open>rng\<close>,
  read modulo the bound.
\<close>

definition chars :: jsstring where
  "chars = js ''abcdefghijklmnopqrstuvwxyz0123456789''"

text \<open>\<open>charAt\<close> returns the empty string for an index out of range.\<close>

definition charAt :: "jsstring \<Rightarrow> nat \<Rightarrow> jsstring" where
  "charAt s i = (if i < length s then [s ! i] else [])"

definition randomIndex :: "nat \<Rightarrow> runtime \<Rightarrow> nat \<times> runtime" where
  "randomIndex n rt = (rng rt 0 mod n, rt\<lparr>rng := \<lambda>i. rng rt (Suc i)\<rparr>)"

function generateRandomString_loop ::
  "nat \<Rightarrow> nat \<Rightarrow> jsstring \<Rightarrow> runtime \<Rightarrow> jsstring \<times> runtime" where
  "generateRandomString_loop i len result rt =
     (if i < len
      then (case randomIndex (length chars) rt of
              (x, rt') \<Rightarrow> generateRandomString_loop (i + 1) len (result @ charAt chars x) rt')
      else (result, rt))"
  by pat_completeness auto
termination
  by (relation "measure (\<lambda>(i, len, result, rt). len - i)") auto

declare generateRandomString_loop.simps [simp del]

definition generateRandomString :: "nat \<Rightarrow> runtime \<Rightarrow> jsstring \<times> runtime" where
  "generateRandomString len rt = generateRandomString_loop 0 len [] rt"

section \<open>Reading and changing a manifest\<close>

fun truthy :: "json \<Rightarrow> bool" where
  "truthy JNull = False"
| "truthy (JBool b) = b"
| "truthy (JNum x) = (x \<noteq> 0)"
| "truthy (JStr s) = (s \<noteq> [])"
| "truthy (JArr xs) = True"
| "truthy (JObj props) = True"

datatype error =
    TypeError
  | SyntaxError
  | NetworkError
  | GitHubApiError nat
  | ManifestUpdateError nat

text \<open>
  The two statements
  \<^verbatim>\<open>if (!manifest[key]) { manifest[key] = []; }  manifest[key].unshift(entry);\<close>
  of \<open>updateManifestWithTool\<close> (\<open>key = tools\<close>) and \<open>updateManifestWithOutput\<close>
  (\<open>key = outputs\<close>), with the document that \<open>JSON.stringify\<close> then writes:
  \<^item> reading a property of \<open>null\<close> throws;
  \<^item> on an object, a missing or falsy property is replaced by \<open>[]\<close>; \<open>unshift\<close> exists
    on arrays only, so calling it on any other truthy value throws;
  \<^item> an array accepts the new property, but \<open>JSON.stringify\<close> writes the elements of
    an array and none of its named properties;
  \<^item> on a number, string or boolean the property reads as \<open>undefined\<close> and the
    assignment throws (module code is strict).
\<close>

fun prependEntry :: "jsstring \<Rightarrow> json \<Rightarrow> json \<Rightarrow> error + json" where
  "prependEntry key entry JNull = Inl TypeError"
| "prependEntry key entry (JObj props) =
     (case map_of props key of
        None \<Rightarrow> Inr (JObj (AList.update key (JArr [entry]) props))
      | Some v \<Rightarrow>
          if \<not> truthy v then Inr (JObj (AList.update key (JArr [entry]) props))
          else (case v of
                  JArr xs \<Rightarrow> Inr (JObj (AList.update key (JArr (entry # xs)) props))
                | _ \<Rightarrow> Inl TypeError))"
| "prependEntry key entry (JArr xs) = Inr (JArr xs)"
| "prependEntry key entry _ = Inl TypeError"

text \<open>
  \<^verbatim>\<open>manifest.tools.unshift(newTool)\<close> of \<open>updateManifest\<close> in the older variant of
  the worker, which has no guard before it: \<open>tools\<close> has to be an array already.
\<close>

fun unshiftTools :: "json \<Rightarrow> json \<Rightarrow> error + json" where
  "unshiftTools entry (JObj props) =
     (case map_of props (js ''tools'') of
        Some (JArr xs) \<Rightarrow> Inr (JObj (AList.update (js ''tools'') (JArr (entry # xs)) props))
      | _ \<Rightarrow> Inl TypeError)"
| "unshiftTools entry _ = Inl TypeError"

text \<open>
  \<^verbatim>\<open>manifest.tools?.find((t) => t.id === toolId)\<close>: the callback reads \<open>t.id\<close>,
  which throws on \<open>null\<close>; \<open>?.\<close> stops at a \<open>tools\<close> that is \<open>undefined\<close> or \<open>null\<close>;
  \<open>find\<close> exists on arrays only.
\<close>

fun hasId :: "jsstring \<Rightarrow> json \<Rightarrow> error + bool" where
  "hasId toolId JNull = Inl TypeError"
| "hasId toolId (JObj props) = Inr (map_of props (js ''id'') = Some (JStr toolId))"
| "hasId toolId _ = Inr False"

fun find_loop :: "jsstring \<Rightarrow> json list \<Rightarrow> error + json option" where
  "find_loop toolId [] = Inr None"
| "find_loop toolId (t # ts) =
     (case hasId toolId t of
        Inl e \<Rightarrow> Inl e
      | Inr found \<Rightarrow> if found then Inr (Some t) else find_loop toolId ts)"

fun findTool :: "json \<Rightarrow> jsstring \<Rightarrow> error + json option" where
  "findTool JNull toolId = Inl TypeError"
| "findTool (JObj props) toolId =
     (case map_of props (js ''tools'') of
        None \<Rightarrow> Inr None
      | Some JNull \<Rightarrow> Inr None
      | Some (JArr ts) \<Rightarrow> find_loop toolId ts
      | Some _ \<Rightarrow> Inl TypeError)"
| "findTool _ toolId = Inr None"

text \<open>\<open>tool.url\<close> of a value that \<open>find\<close> returned.\<close>

fun urlOf :: "json \<Rightarrow> json option" where
  "urlOf (JObj props) = map_of props (js ''url'')"
| "urlOf _ = None"

record ToolManifestEntry =
  t_id :: jsstring
  t_author :: jsstring
  t_name :: jsstring
  t_description :: jsstring
  t_model :: jsstring
  t_url :: jsstring
  t_uploadedAt :: jsstring

record OutputManifestEntry =
  o_id :: jsstring
  o_toolId :: jsstring
  o_toolUrl :: "json option"
  o_url :: jsstring
  o_createdAt :: jsstring

text \<open>The entries as \<open>JSON.stringify\<close> writes them; a property that is \<open>undefined\<close> is left out.\<close>

definition toolJson :: "ToolManifestEntry \<Rightarrow> json" where
  "toolJson e = JObj
     [(js ''id'', JStr (t_id e)), (js ''author'', JStr (t_author e)),
      (js ''name'', JStr (t_name e)), (js ''description'', JStr (t_description e)),
      (js ''model'', JStr (t_model e)), (js ''url'', JStr (t_url e)),
      (js ''uploadedAt'', JStr (t_uploadedAt e))]"

definition outputJson :: "OutputManifestEntry \<Rightarrow> json" where
  "outputJson e = JObj
     ([(js ''id'', JStr (o_id e)), (js ''toolId'', JStr (o_toolId e))] @
      (case o_toolUrl e of None \<Rightarrow> [] | Some u \<Rightarrow> [(js ''toolUrl'', u)]) @
      [(js ''url'', JStr (o_url e)), (js ''createdAt'', JStr (o_createdAt e))])"


section \<open>Effects and the client of the store\<close>

text \<open>
  One request runs against a \<open>runtime\<close>: \<open>replies\<close> are the answers of the remote
  store to the calls still to come (\<open>replies rt 0\<close> answers the next one), whatever
  the store decides; \<open>effects\<close> is the log of what the request has done so far;
  \<open>clock\<close> is the time of the request as \<open>toISOString\<close> writes it; \<open>unicode\<close> is the
  case conversion of \<open>toLowerCase\<close>. An asynchronous function that may throw is an
  \<open>io\<close>: it returns a value or the error thrown, and the runtime with the effects done
  up to there.
\<close>

type_synonym 'a io = "runtime \<Rightarrow> (error + 'a) \<times> runtime"

definition succeed :: "'a \<Rightarrow> 'a io" where
  "succeed x rt = (Inr x, rt)"

definition throw :: "error \<Rightarrow> 'a io" where
  "throw e rt = (Inl e, rt)"

definition andThen :: "'a io \<Rightarrow> ('a \<Rightarrow> 'b io) \<Rightarrow> 'b io" where
  "andThen m k rt = (case m rt of (Inl e, rt') \<Rightarrow> (Inl e, rt') | (Inr x, rt') \<Rightarrow> k x rt')"

definition liftResult :: "error + 'a \<Rightarrow> 'a io" where
  "liftResult r rt = (r, rt)"

definition liftState :: "(runtime \<Rightarrow> 'a \<times> runtime) \<Rightarrow> 'a io" where
  "liftState f rt = (case f rt of (x, rt') \<Rightarrow> (Inr x, rt'))"

text \<open>\<open>new Date().toISOString()\<close>, and the case conversion that \<open>toLowerCase\<close> uses.\<close>

definition now :: "jsstring io" where
  "now rt = (Inr (clock rt), rt)"

definition caseConversion :: "(jsstring \<Rightarrow> jsstring) io" where
  "caseConversion rt = (Inr (unicode rt), rt)"

text \<open>
  The global \<open>fetch\<close> against the contents API of the store. A call is logged with its
  URL, its content, its commit message and its \<open>sha\<close>; the bearer token, the fixed
  headers and the branch \<open>main\<close> are the same on every call and left out. The wire
  encoding is not modelled: a call holds the content before \<open>base64Encode\<close> (for the
  manifest before \<open>JSON.stringify\<close>), and a reply holds in \<open>FileObject d sha\<close> the
  document \<open>d\<close> that \<open>base64Decode\<close> and \<open>JSON.parse\<close> make of its content, \<open>None\<close>
  where one of them throws. \<open>NotJson\<close> is a body on which \<open>response.json()\<close> rejects,
  \<open>Rejected\<close> a call on which \<open>fetch\<close> itself rejects.

  Three things lie outside this model. A call holds the bytes of the tool file as the
  form gave them, not the text that \<open>text()\<close> decodes them to. A document is written
  as it was read, so a number too large for a double, which \<open>JSON.parse\<close> reads as
  infinite and \<open>JSON.stringify\<close> writes as \<open>null\<close>, has no value here. And the body of
  a reply is an object: a JSON body that is \<open>null\<close>, \<open>false\<close>, \<open>0\<close> or the empty string,
  which the callers of \<open>getFromGitHub\<close> take for an absent file, has none either.
\<close>

definition http_fetch :: "store_call \<Rightarrow> (nat \<times> reply_body) io" where
  "http_fetch c rt =
     (let rt' = rt\<lparr>replies := \<lambda>i. replies rt (Suc i), effects := effects rt @ [Fetched c]\<rparr>
      in case replies rt 0 of
           Rejected \<Rightarrow> (Inl NetworkError, rt')
         | Reply st b \<Rightarrow> (Inr (st, b), rt'))"

definition ok :: "nat \<Rightarrow> bool" where
  "ok st \<longleftrightarrow> 200 \<le> st \<and> st \<le> 299"

definition contentsUrl :: "jsstring \<Rightarrow> jsstring \<Rightarrow> jsstring \<Rightarrow> jsstring" where
  "contentsUrl owner repo path =
     js ''https://api.github.com/repos/'' @ owner @ js ''/'' @ repo @ js ''/contents/'' @ path"

record GitHubFileResponse =
  content :: "json option"
  sha :: jsstring

definition uploadToGitHub ::
  "jsstring \<Rightarrow> jsstring \<Rightarrow> jsstring \<Rightarrow> jsstring \<Rightarrow> 8 word list \<Rightarrow> jsstring \<Rightarrow> unit io" where
  "uploadToGitHub token owner repo path text message =
     andThen (http_fetch (PutFile (contentsUrl owner repo path) (TextContent text) message None))
       (\<lambda>(st, body).
          if \<not> ok st then throw (GitHubApiError st)
          else case body of NotJson \<Rightarrow> throw SyntaxError | FileObject d s \<Rightarrow> succeed ())"

definition uploadBinaryToGitHub ::
  "jsstring \<Rightarrow> jsstring \<Rightarrow> jsstring \<Rightarrow> jsstring \<Rightarrow> 8 word list \<Rightarrow> jsstring \<Rightarrow> unit io" where
  "uploadBinaryToGitHub token owner repo path buffer message =
     andThen (http_fetch (PutFile (contentsUrl owner repo path) (BinaryContent buffer) message None))
       (\<lambda>(st, body).
          if \<not> ok st then throw (GitHubApiError st)
          else case body of NotJson \<Rightarrow> throw SyntaxError | FileObject d s \<Rightarrow> succeed ())"

definition getFromGitHub ::
  "jsstring \<Rightarrow> jsstring \<Rightarrow> jsstring \<Rightarrow> jsstring \<Rightarrow> GitHubFileResponse option io" where
  "getFromGitHub token owner repo path =
     andThen (http_fetch (GetFile (contentsUrl owner repo path)))
       (\<lambda>(st, body).
          if \<not> ok st then (if st = 404 then succeed None else throw (GitHubApiError st))
          else case body of
                 NotJson \<Rightarrow> throw SyntaxError
               | FileObject d s \<Rightarrow> succeed (Some \<lparr>content = d, sha = s\<rparr>))"

text \<open>\<^verbatim>\<open>JSON.parse(base64Decode(currentManifest.content))\<close>\<close>

definition decodeManifest :: "GitHubFileResponse \<Rightarrow> json io" where
  "decodeManifest currentManifest =
     (case content currentManifest of None \<Rightarrow> throw SyntaxError | Some manifest \<Rightarrow> succeed manifest)"

text \<open>
  The three update functions end with the same \<open>PUT\<close> of the manifest, which differs in
  the commit message only; \<open>version\<close> is the \<open>sha\<close> of the body, left out of the JSON
  when it is \<open>undefined\<close>.
\<close>

definition putManifest ::
  "jsstring \<Rightarrow> jsstring \<Rightarrow> jsstring \<Rightarrow> json \<Rightarrow> jsstring \<Rightarrow> jsstring option \<Rightarrow> unit io" where
  "putManifest owner repo manifestPath manifest message version =
     andThen (http_fetch (PutFile (contentsUrl owner repo manifestPath) (ManifestContent manifest) message version))
       (\<lambda>(st, body).
          if \<not> ok st then throw (ManifestUpdateError st)
          else case body of NotJson \<Rightarrow> throw SyntaxError | FileObject d s \<Rightarrow> succeed ())"

definition updateManifestWithTool ::
  "jsstring \<Rightarrow> jsstring \<Rightarrow> jsstring \<Rightarrow> jsstring \<Rightarrow> ToolManifestEntry \<Rightarrow> unit io" where
  "updateManifestWithTool token owner repo manifestPath newTool =
     andThen (getFromGitHub token owner repo manifestPath) (\<lambda>currentManifest.
     andThen (case currentManifest of
                Some f \<Rightarrow> andThen (decodeManifest f) (\<lambda>manifest. succeed (manifest, Some (sha f)))
              | None \<Rightarrow> succeed (JObj [(js ''tools'', JArr []), (js ''outputs'', JArr [])], None))
       (\<lambda>(manifest, version).
     andThen (liftResult (prependEntry (js ''tools'') (toolJson newTool) manifest)) (\<lambda>manifest'.
     putManifest owner repo manifestPath manifest' (js ''Update manifest with new tool'') version)))"

definition updateManifestWithOutput ::
  "jsstring \<Rightarrow> jsstring \<Rightarrow> jsstring \<Rightarrow> jsstring \<Rightarrow> OutputManifestEntry \<Rightarrow> unit io" where
  "updateManifestWithOutput token owner repo manifestPath newOutput =
     andThen (getFromGitHub token owner repo manifestPath) (\<lambda>currentManifest.
     andThen (case currentManifest of
                Some f \<Rightarrow> andThen (decodeManifest f) (\<lambda>manifest. succeed (manifest, Some (sha f)))
              | None \<Rightarrow> succeed (JObj [(js ''tools'', JArr []), (js ''outputs'', JArr [])], None))
       (\<lambda>(manifest, version).
     andThen (liftResult (prependEntry (js ''outputs'') (outputJson newOutput) manifest)) (\<lambda>manifest'.
     putManifest owner repo manifestPath manifest' (js ''Update manifest with new output'') version)))"

text \<open>\<open>updateManifest\<close> of the older variant: a new manifest is \<open>{ tools: [] }\<close>.\<close>

definition updateManifest ::
  "jsstring \<Rightarrow> jsstring \<Rightarrow> jsstring \<Rightarrow> jsstring \<Rightarrow> ToolManifestEntry \<Rightarrow> unit io" where
  "updateManifest token owner repo manifestPath newTool =
     andThen (getFromGitHub token owner repo manifestPath) (\<lambda>currentManifest.
     andThen (case currentManifest of
                Some f \<Rightarrow> andThen (decodeManifest f) (\<lambda>manifest. succeed (manifest, Some (sha f)))
              | None \<Rightarrow> succeed (JObj [(js ''tools'', JArr [])], None))
       (\<lambda>(manifest, version).
     andThen (liftResult (unshiftTools (toolJson newTool) manifest)) (\<lambda>manifest'.
     putManifest owner repo manifestPath manifest' (js ''Update manifest with new tool'') version)))"


section \<open>Requests, forms and validation\<close>

record File =
  file_name :: jsstring
  file_type :: jsstring
  file_data :: "8 word list"

datatype form_value = FormString jsstring | FormFile File

text \<open>\<open>formData.get(name)\<close> is the first value under the name, \<open>null\<close> without one.\<close>

type_synonym form_data = "(jsstring \<times> form_value) list"

text \<open>
  A request: \<open>req_pathname\<close> is \<open>new URL(request.url).pathname\<close>, and \<open>req_form\<close> is the
  form that \<open>request.formData()\<close> resolves to, \<open>None\<close> for a body on which it rejects.
\<close>

record request =
  req_method :: jsstring
  req_origin :: "jsstring option"
  req_pathname :: jsstring
  req_form :: "form_data option"

record env =
  ALLOWED_ORIGIN :: jsstring
  GITHUB_TOKEN :: jsstring
  GITHUB_OWNER :: jsstring
  GITHUB_REPO :: jsstring
  ACTIVE_WORKSHOP_SLUG :: jsstring

definition formData :: "request \<Rightarrow> form_data io" where
  "formData request rt =
     (let rt' = rt\<lparr>effects := effects rt @ [FormParsed]\<rparr>
      in case req_form request of None \<Rightarrow> (Inl TypeError, rt') | Some fd \<Rightarrow> (Inr fd, rt'))"

text \<open>
  The schemas are built with the validation library \<open>zod\<close>. An object schema parses
  every key of its shape and collects the issues of all of them, each under the path
  of its key. For one key, in the order the schema is written:
  \<^item> \<open>z.string()\<close> raises \<open>invalid_type\<close> on anything but a string, and stops;
  \<^item> \<open>.min(1, msg)\<close> raises \<open>too_small\<close> with the message on a string of length 0;
  \<^item> \<open>.trim()\<close> replaces the string by \<open>input.trim()\<close>; it comes after \<open>.min\<close>, so the
    length checked is the one before trimming;
  \<^item> \<open>z.instanceof(File, {message})\<close> raises a \<open>custom\<close> issue with the message on
    anything but a \<open>File\<close>, and stops;
  \<^item> \<open>.refine(p, msg)\<close> raises a \<open>custom\<close> issue with the message where \<open>p\<close> is false.
\<close>

datatype issue_kind = InvalidType | TooSmall jsstring | Custom jsstring

record issue =
  path :: jsstring
  kind :: issue_kind

text \<open>White space and line terminators, as \<open>String.prototype.trim\<close> removes them.\<close>

definition isWhiteSpace :: "code_unit \<Rightarrow> bool" where
  "isWhiteSpace c \<longleftrightarrow>
     c \<in> {0x09, 0x0A, 0x0B, 0x0C, 0x0D, 0x20, 0xA0, 0x1680, 0x2028, 0x2029, 0x202F, 0x205F,
           0x3000, 0xFEFF} \<or> (0x2000 \<le> c \<and> c \<le> 0x200A)"

definition trim :: "jsstring \<Rightarrow> jsstring" where
  "trim s = rev (dropWhile isWhiteSpace (rev (dropWhile isWhiteSpace s)))"

definition zStringMin1 :: "jsstring \<Rightarrow> form_value option \<Rightarrow> issue_kind + jsstring" where
  "zStringMin1 msg v =
     (case v of
        Some (FormString s) \<Rightarrow> if length s < 1 then Inl (TooSmall msg) else Inr s
      | _ \<Rightarrow> Inl InvalidType)"

definition zTrim :: "issue_kind + jsstring \<Rightarrow> issue_kind + jsstring" where
  "zTrim r = (case r of Inl k \<Rightarrow> Inl k | Inr s \<Rightarrow> Inr (trim s))"

definition zInstanceofFile :: "jsstring \<Rightarrow> form_value option \<Rightarrow> issue_kind + File" where
  "zInstanceofFile msg v = (case v of Some (FormFile f) \<Rightarrow> Inr f | _ \<Rightarrow> Inl (Custom msg))"

definition zRefine :: "(File \<Rightarrow> bool) \<Rightarrow> jsstring \<Rightarrow> issue_kind + File \<Rightarrow> issue_kind + File" where
  "zRefine p msg r =
     (case r of Inl k \<Rightarrow> Inl k | Inr f \<Rightarrow> if p f then Inr f else Inl (Custom msg))"

definition fieldIssue :: "jsstring \<Rightarrow> issue_kind + 'a \<Rightarrow> issue list" where
  "fieldIssue key r = (case r of Inl k \<Rightarrow> [\<lparr>path = key, kind = k\<rparr>] | Inr x \<Rightarrow> [])"

definition endsWith :: "jsstring \<Rightarrow> jsstring \<Rightarrow> bool" where
  "endsWith s suf \<longleftrightarrow> length suf \<le> length s \<and> drop (length s - length suf) s = suf"

record uploadInput =
  toolName :: jsstring
  toolDescription :: jsstring
  nickname :: jsstring
  modelUsed :: jsstring
  toolFile :: File

text \<open>\<open>uploadInputSchema.safeParse(formFields)\<close>: the issues, or the validated data.\<close>

definition uploadInputSchema ::
  "form_value option \<Rightarrow> form_value option \<Rightarrow> form_value option \<Rightarrow> form_value option \<Rightarrow>
   form_value option \<Rightarrow> issue list + uploadInput" where
  "uploadInputSchema vToolName vToolDescription vNickname vModelUsed vToolFile =
     (let rToolName = zTrim (zStringMin1 (js ''Tool name is required'') vToolName);
          rToolDescription = zTrim (zStringMin1 (js ''Description is required'') vToolDescription);
          rNickname = zTrim (zStringMin1 (js ''Nickname is required'') vNickname);
          rModelUsed = zTrim (zStringMin1 (js ''Model used is required'') vModelUsed);
          rToolFile = zRefine (\<lambda>f. endsWith (file_name f) (js ''.js''))
                        (js ''File must be a JavaScript file (.js)'')
                        (zInstanceofFile (js ''A JavaScript file is required'') vToolFile)
      in case (rToolName, rToolDescription, rNickname, rModelUsed, rToolFile) of
           (Inr a, Inr b, Inr c, Inr d, Inr f) \<Rightarrow>
             Inr \<lparr>toolName = a, toolDescription = b, nickname = c, modelUsed = d, toolFile = f\<rparr>
         | _ \<Rightarrow>
             Inl (fieldIssue (js ''toolName'') rToolName @
                  fieldIssue (js ''toolDescription'') rToolDescription @
                  fieldIssue (js ''nickname'') rNickname @
                  fieldIssue (js ''modelUsed'') rModelUsed @
                  fieldIssue (js ''toolFile'') rToolFile))"

record uploadOutput =
  toolId :: jsstring
  outputFile :: File

definition uploadOutputSchema ::
  "form_value option \<Rightarrow> form_value option \<Rightarrow> issue list + uploadOutput" where
  "uploadOutputSchema vToolId vOutputFile =
     (let rToolId = zStringMin1 (js ''Tool ID is required'') vToolId;
          rOutputFile =
            zRefine (\<lambda>f. file_type f \<in> set [js ''image/png'', js ''image/jpeg'', js ''image/webp'',
                                             js ''image/gif''])
              (js ''File must be an image (PNG, JPEG, WebP, or GIF)'')
              (zInstanceofFile (js ''An image file is required'') vOutputFile)
      in case (rToolId, rOutputFile) of
           (Inr a, Inr f) \<Rightarrow> Inr \<lparr>toolId = a, outputFile = f\<rparr>
         | _ \<Rightarrow> Inl (fieldIssue (js ''toolId'') rToolId @ fieldIssue (js ''outputFile'') rOutputFile))"

section \<open>The worker\<close>

datatype api_response =
    SuccessResponse jsstring jsstring
  | ValidationErrorResponse "issue list"
  | GeneralErrorResponse jsstring

text \<open>
  A response is its status and its JSON body (\<open>None\<close> for the \<open>null\<close> body of the
  preflight answer). Every response carries the same CORS headers, which are left out.
\<close>

record response =
  status :: nat
  body :: "api_response option"

definition jsonResponse :: "api_response \<Rightarrow> nat \<Rightarrow> response" where
  "jsonResponse data st = \<lparr>status = st, body = Some data\<rparr>"

text \<open>\<^verbatim>\<open>toolFile.name.replace(/\.js$/, '')\<close>: the match is the three last units.\<close>

fun removeJs :: "jsstring \<Rightarrow> jsstring" where
  "removeJs [] = []"
| "removeJs (c # cs) = (if c # cs = js ''.js'' then [] else c # removeJs cs)"

text \<open>
  \<^verbatim>\<open>outputFile.name.replace(/\.[^/.]+$/, '')\<close>: the leftmost dot behind which one or
  more units other than \<open>/\<close> and \<open>.\<close> run up to the end of the string.
\<close>

fun removeExtension :: "jsstring \<Rightarrow> jsstring" where
  "removeExtension [] = []"
| "removeExtension (c # cs) =
     (if c = dot \<and> cs \<noteq> [] \<and> list_all (\<lambda>x. x \<noteq> slash \<and> x \<noteq> dot) cs then []
      else c # removeExtension cs)"

definition mimeToExt :: "(jsstring \<times> jsstring) list" where
  "mimeToExt =
     [(js ''image/png'', js ''png''), (js ''image/jpeg'', js ''jpg''),
      (js ''image/webp'', js ''webp''), (js ''image/gif'', js ''gif'')]"

definition galleryUrl :: "env \<Rightarrow> jsstring" where
  "galleryUrl env =
     js ''https://'' @ GITHUB_OWNER env @ js ''.github.io/'' @ GITHUB_REPO env @ js ''/'' @
     ACTIVE_WORKSHOP_SLUG env @ js ''/''"

definition internalError :: response where
  "internalError =
     jsonResponse (GeneralErrorResponse (js ''Internal server error. Please try again.'')) 500"

text \<open>
  The \<open>try\<close> block of the tool upload. It is the same text in \<open>handleToolUpload\<close> and in
  the \<open>fetch\<close> of the older variant, up to the function that updates the manifest,
  which is the parameter \<open>update\<close>.
\<close>

definition toolUpload ::
  "(jsstring \<Rightarrow> jsstring \<Rightarrow> jsstring \<Rightarrow> jsstring \<Rightarrow> ToolManifestEntry \<Rightarrow> unit io) \<Rightarrow>
   request \<Rightarrow> env \<Rightarrow> response io" where
  "toolUpload update request env =
     andThen (formData request) (\<lambda>fd.
       case uploadInputSchema (map_of fd (js ''toolName'')) (map_of fd (js ''toolDescription''))
              (map_of fd (js ''nickname'')) (map_of fd (js ''modelUsed''))
              (map_of fd (js ''toolFile'')) of
         Inl issues \<Rightarrow> succeed (jsonResponse (ValidationErrorResponse issues) 400)
       | Inr data \<Rightarrow>
           andThen caseConversion (\<lambda>uni.
           let fileContent = file_data (toolFile data);
               sanitizedAuthor = sanitizeString uni (nickname data) 20;
               originalFilename = removeJs (file_name (toolFile data));
               sanitizedFilename = sanitizeString uni originalFilename 30
           in andThen (liftState (generateRandomString 6)) (\<lambda>randomString.
                let finalFilename =
                      sanitizedAuthor @ js ''-'' @ sanitizedFilename @ js ''-'' @ randomString @ js ''.js''
                in andThen (uploadToGitHub (GITHUB_TOKEN env) (GITHUB_OWNER env) (GITHUB_REPO env)
                              (ACTIVE_WORKSHOP_SLUG env @ js ''/tools/'' @ finalFilename)
                              fileContent (js ''Add sketch by '' @ nickname data)) (\<lambda>u.
                   let manifestPath = ACTIVE_WORKSHOP_SLUG env @ js ''/manifest.json''
                   in andThen now (\<lambda>uploadedAt.
                      andThen (update (GITHUB_TOKEN env) (GITHUB_OWNER env) (GITHUB_REPO env) manifestPath
                        \<lparr>t_id = sanitizedAuthor @ js ''-'' @ sanitizedFilename @ js ''-'' @ randomString,
                         t_author = nickname data,
                         t_name = toolName data,
                         t_description = toolDescription data,
                         t_model = modelUsed data,
                         t_url = js ''tools/'' @ finalFilename,
                         t_uploadedAt = uploadedAt\<rparr>) (\<lambda>u.
                      succeed (jsonResponse (SuccessResponse finalFilename (galleryUrl env)) 200)))))))"

text \<open>The \<open>catch\<close> of both handlers: whatever was thrown, the answer is the same.\<close>

definition catchAll :: "response io \<Rightarrow> runtime \<Rightarrow> response \<times> runtime" where
  "catchAll m rt = (case m rt of (Inl e, rt') \<Rightarrow> (internalError, rt') | (Inr r, rt') \<Rightarrow> (r, rt'))"

definition handleToolUpload :: "request \<Rightarrow> env \<Rightarrow> runtime \<Rightarrow> response \<times> runtime" where
  "handleToolUpload request env = catchAll (toolUpload updateManifestWithTool request env)"

definition outputUpload :: "request \<Rightarrow> env \<Rightarrow> response io" where
  "outputUpload request env =
     andThen (formData request) (\<lambda>fd.
       case uploadOutputSchema (map_of fd (js ''toolId'')) (map_of fd (js ''outputFile'')) of
         Inl issues \<Rightarrow> succeed (jsonResponse (ValidationErrorResponse issues) 400)
       | Inr data \<Rightarrow>
           let manifestPath = ACTIVE_WORKSHOP_SLUG env @ js ''/manifest.json''
           in andThen (getFromGitHub (GITHUB_TOKEN env) (GITHUB_OWNER env) (GITHUB_REPO env) manifestPath)
                (\<lambda>currentManifest.
              case currentManifest of
                None \<Rightarrow> succeed (jsonResponse (GeneralErrorResponse (js ''Manifest not found'')) 404)
              | Some f \<Rightarrow>
                  andThen (decodeManifest f) (\<lambda>manifest.
                  andThen (liftResult (findTool manifest (toolId data))) (\<lambda>found.
                    case found of
                      None \<Rightarrow> succeed (jsonResponse (GeneralErrorResponse (js ''Tool not found'')) 404)
                    | Some tool \<Rightarrow>
                        andThen (liftState (generateRandomString 6)) (\<lambda>randomString.
                        andThen caseConversion (\<lambda>uni.
                          let fileExtension =
                                (case map_of mimeToExt (file_type (outputFile data)) of
                                   None \<Rightarrow> js ''undefined'' | Some ext \<Rightarrow> ext);
                              baseFilename = removeExtension (file_name (outputFile data));
                              sanitizedFilename = sanitizeString uni baseFilename 30;
                              outputId = sanitizedFilename @ js ''-'' @ randomString;
                              finalFilename = outputId @ js ''.'' @ fileExtension
                          in andThen (uploadBinaryToGitHub (GITHUB_TOKEN env) (GITHUB_OWNER env)
                                        (GITHUB_REPO env)
                                        (ACTIVE_WORKSHOP_SLUG env @ js ''/outputs/'' @ finalFilename)
                                        (file_data (outputFile data))
                                        (js ''Add output for '' @ toolId data)) (\<lambda>u.
                             andThen now (\<lambda>createdAt.
                             andThen (updateManifestWithOutput (GITHUB_TOKEN env) (GITHUB_OWNER env)
                                        (GITHUB_REPO env) manifestPath
                                        \<lparr>o_id = outputId,
                                         o_toolId = toolId data,
                                         o_toolUrl = urlOf tool,
                                         o_url = js ''outputs/'' @ finalFilename,
                                         o_createdAt = createdAt\<rparr>) (\<lambda>u.
                               succeed (jsonResponse (SuccessResponse finalFilename (galleryUrl env))
                                          200))))))))))"

definition handleOutputUpload :: "request \<Rightarrow> env \<Rightarrow> runtime \<Rightarrow> response \<times> runtime" where
  "handleOutputUpload request env = catchAll (outputUpload request env)"

text \<open>
  The entry point: \<^verbatim>\<open>request.headers.get('Origin') || ''\<close> is the empty string for a
  request without the header.
\<close>

definition originOf :: "request \<Rightarrow> jsstring" where
  "originOf request = (case req_origin request of None \<Rightarrow> [] | Some h \<Rightarrow> h)"

definition fetch :: "request \<Rightarrow> env \<Rightarrow> runtime \<Rightarrow> response \<times> runtime" where
  "fetch request env rt =
     (if req_method request = js ''OPTIONS'' then (\<lparr>status = 204, body = None\<rparr>, rt)
      else if req_method request \<noteq> js ''POST''
      then (jsonResponse (GeneralErrorResponse (js ''Method not allowed'')) 405, rt)
      else if originOf request \<noteq> ALLOWED_ORIGIN env
      then (jsonResponse (GeneralErrorResponse (js ''Origin not allowed'')) 403, rt)
      else if req_pathname request = js ''/upload/tool'' then handleToolUpload request env rt
      else if req_pathname request = js ''/upload/output'' then handleOutputUpload request env rt
      else (jsonResponse (GeneralErrorResponse (js ''Not found'')) 404, rt))"

text \<open>The entry point of the older variant, which has the tool upload only and no routes.\<close>

definition fetch_part_000 :: "request \<Rightarrow> env \<Rightarrow> runtime \<Rightarrow> response \<times> runtime" where
  "fetch_part_000 request env rt =
     (if req_method request = js ''OPTIONS'' then (\<lparr>status = 204, body = None\<rparr>, rt)
      else if req_method request \<noteq> js ''POST''
      then (jsonResponse (GeneralErrorResponse (js ''Method not allowed'')) 405, rt)
      else if originOf request \<noteq> ALLOWED_ORIGIN env
      then (jsonResponse (GeneralErrorResponse (js ''Origin not allowed'')) 403, rt)
      else catchAll (toolUpload updateManifest request env) rt)"

section \<open>The sanitizer as the specification words it\<close>

text \<open>
  The specification describes the sanitizer in four steps: lowercase; replace every
  maximal run of characters outside \<open>[a-z0-9]\<close> with a single hyphen; trim leading and
  trailing hyphens; truncate to \<open>maxLength\<close> characters, with no trim after that.
  \<open>runsOf P s\<close> cuts \<open>s\<close> into its maximal runs of units on which \<open>P\<close> is constant.
\<close>

function runsOf :: "('a \<Rightarrow> bool) \<Rightarrow> 'a list \<Rightarrow> 'a list list" where
  "runsOf P [] = []"
| "runsOf P (x # xs) =
     (x # takeWhile (\<lambda>y. P y = P x) xs) # runsOf P (dropWhile (\<lambda>y. P y = P x) xs)"
  by pat_completeness auto
termination
  by (relation "measure (\<lambda>(P, xs). length xs)") (auto simp: less_Suc_eq_le length_dropWhile_le)

definition spec_replace :: "jsstring \<Rightarrow> jsstring" where
  "spec_replace s =
     concat (map (\<lambda>r. case r of [] \<Rightarrow> [] | c # cs \<Rightarrow> if isLowerAlnum c then r else [hyphen])
       (runsOf isLowerAlnum s))"

definition spec_trim :: "jsstring \<Rightarrow> jsstring" where
  "spec_trim s = rev (dropWhile (\<lambda>c. c = hyphen) (rev (dropWhile (\<lambda>c. c = hyphen) s)))"

definition spec_sanitize :: "(jsstring \<Rightarrow> jsstring) \<Rightarrow> jsstring \<Rightarrow> int \<Rightarrow> jsstring" where
  "spec_sanitize uni s n = take (nat n) (spec_trim (spec_replace (toLowerCase uni s)))"

text \<open>The characters \<open>[a-z0-9-]\<close>, and strings in which no hyphen follows a hyphen.\<close>

definition sanitized_char :: "code_unit \<Rightarrow> bool" where
  "sanitized_char c \<longleftrightarrow> isLowerAlnum c \<or> c = hyphen"

fun singleHyphens :: "jsstring \<Rightarrow> bool" where
  "singleHyphens (c # d # s) = ((c \<noteq> hyphen \<or> d \<noteq> hyphen) \<and> singleHyphens (d # s))"
| "singleHyphens s = True"

section \<open>What a run shows\<close>

text \<open>The calls to the store in the log of a runtime, and those made since an earlier one.\<close>

fun callOf :: "effect \<Rightarrow> store_call list" where
  "callOf (Fetched c) = [c]"
| "callOf FormParsed = []"

definition calls :: "runtime \<Rightarrow> store_call list" where
  "calls rt = concat (map callOf (effects rt))"

definition callsSince :: "runtime \<Rightarrow> runtime \<Rightarrow> store_call list" where
  "callsSince rt rt' = drop (length (calls rt)) (calls rt')"

definition effectsSince :: "runtime \<Rightarrow> runtime \<Rightarrow> effect list" where
  "effectsSince rt rt' = drop (length (effects rt)) (effects rt')"

text \<open>The runtime after a call to the store: the call is logged and its reply is used up.\<close>

definition logged :: "store_call \<Rightarrow> runtime \<Rightarrow> runtime" where
  "logged c rt = rt\<lparr>replies := \<lambda>i. replies rt (Suc i), effects := effects rt @ [Fetched c]\<rparr>"

text \<open>
  A call to the store has failed when \<open>fetch\<close> rejects or the status is not a success.
  A read answered with 404 is no failure: \<open>getFromGitHub\<close> returns \<open>null\<close> for it.
\<close>

fun isGet :: "store_call \<Rightarrow> bool" where
  "isGet (GetFile url) = True"
| "isGet (PutFile url c m v) = False"

fun storeFailure :: "store_call \<Rightarrow> reply \<Rightarrow> bool" where
  "storeFailure c Rejected = True"
| "storeFailure c (Reply st b) = (\<not> ok st \<and> \<not> (isGet c \<and> st = 404))"

text \<open>
  The manifest that a reply to a read shows: the document of a successful reply, and
  the empty manifest where the file is absent.
\<close>

definition emptyManifest :: json where
  "emptyManifest = JObj [(js ''tools'', JArr []), (js ''outputs'', JArr [])]"

fun storedManifest :: "reply \<Rightarrow> json" where
  "storedManifest (Reply st (FileObject (Some d) s)) = (if ok st then d else emptyManifest)"
| "storedManifest r = emptyManifest"

fun storedVersion :: "reply \<Rightarrow> jsstring option" where
  "storedVersion (Reply st (FileObject d s)) = (if ok st then Some s else None)"
| "storedVersion r = None"

fun isArray :: "json \<Rightarrow> bool" where
  "isArray (JArr xs) = True"
| "isArray d = False"

text \<open>
  The properties of a document, and its collections as the data model has them: an
  array, or empty where the property is absent or holds no array.
\<close>

fun propOf :: "json \<Rightarrow> jsstring \<Rightarrow> json option" where
  "propOf (JObj props) key = map_of props key"
| "propOf d key = None"

definition entriesOf :: "jsstring \<Rightarrow> json \<Rightarrow> json list" where
  "entriesOf key d = (case propOf d key of Some (JArr xs) \<Rightarrow> xs | _ \<Rightarrow> [])"

text \<open>
  A manifest in which the tools are an array (or absent) without \<open>null\<close> elements and
  without an element whose \<open>id\<close> is \<open>toolId\<close>.
\<close>

fun toolEntries :: "json \<Rightarrow> json list option" where
  "toolEntries (JObj props) =
     (case map_of props (js ''tools'') of
        None \<Rightarrow> Some [] | Some (JArr ts) \<Rightarrow> Some ts | Some v \<Rightarrow> None)"
| "toolEntries d = None"

definition noToolWithId :: "jsstring \<Rightarrow> json \<Rightarrow> bool" where
  "noToolWithId wanted d =
     (case toolEntries d of
        None \<Rightarrow> False
      | Some ts \<Rightarrow> list_all (\<lambda>t. t \<noteq> JNull \<and> propOf t (js ''id'') \<noteq> Some (JStr wanted)) ts)"

text \<open>Runtimes for running examples: the replies are a list, and nothing answers after it.\<close>

definition scripted :: "reply list \<Rightarrow> nat \<Rightarrow> reply" where
  "scripted rs i = (if i < length rs then rs ! i else Rejected)"

definition runtimeOf :: "reply list \<Rightarrow> runtime" where
  "runtimeOf rs =
     \<lparr>replies = scripted rs, effects = [], rng = (\<lambda>i. 7 * i + 3),
      clock = js ''2024-05-01T12:00:00.000Z'', unicode = asciiOnly\<rparr>"

definition exampleEnv :: env where
  "exampleEnv =
     \<lparr>ALLOWED_ORIGIN = js ''https://gallery.example'', GITHUB_TOKEN = js ''t'',
      GITHUB_OWNER = js ''o'', GITHUB_REPO = js ''r'', ACTIVE_WORKSHOP_SLUG = js ''w''\<rparr>"

text \<open>A request that passes the validation of the route it asks for.\<close>

definition passesValidation :: "request \<Rightarrow> bool" where
  "passesValidation req =
     (case req_form req of
        None \<Rightarrow> False
      | Some fd \<Rightarrow>
          if req_pathname req = js ''/upload/tool''
          then \<not> isl (uploadInputSchema (map_of fd (js ''toolName'')) (map_of fd (js ''toolDescription''))
                        (map_of fd (js ''nickname'')) (map_of fd (js ''modelUsed''))
                        (map_of fd (js ''toolFile'')))
          else req_pathname req = js ''/upload/output'' \<and>
               \<not> isl (uploadOutputSchema (map_of fd (js ''toolId'')) (map_of fd (js ''outputFile''))))"

text \<open>Requests for running examples.\<close>

definition exampleToolForm :: form_data where
  "exampleToolForm =
     [(js ''toolName'', FormString (js ''Spiral'')),
      (js ''toolDescription'', FormString (js ''Draws spirals'')),
      (js ''nickname'', FormString (js '' Ada L. '')),
      (js ''modelUsed'', FormString (js ''none'')),
      (js ''toolFile'',
       FormFile \<lparr>file_name = js ''My Sketch.js'', file_type = js ''text/javascript'',
                 file_data = [0x2F, 0x2F]\<rparr>)]"

definition exampleToolRequest :: request where
  "exampleToolRequest =
     \<lparr>req_method = js ''POST'', req_origin = Some (js ''https://gallery.example''),
      req_pathname = js ''/upload/tool'', req_form = Some exampleToolForm\<rparr>"

definition exampleOutputRequest :: request where
  "exampleOutputRequest =
     \<lparr>req_method = js ''POST'', req_origin = Some (js ''https://gallery.example''),
      req_pathname = js ''/upload/output'',
      req_form = Some
        [(js ''toolId'', FormString (js ''ada-l-my-sketch-dkry5c'')),
         (js ''outputFile'',
          FormFile \<lparr>file_name = js ''Run 1.final.PNG'', file_type = js ''image/png'',
                    file_data = [0x89, 0x50]\<rparr>)]\<rparr>"

definition exampleManifest :: json where
  "exampleManifest =
     JObj [(js ''tools'',
            JArr [JObj [(js ''id'', JStr (js ''ada-l-my-sketch-dkry5c'')),
                        (js ''url'', JStr (js ''tools/ada-l-my-sketch-dkry5c.js''))]]),
           (js ''outputs'', JArr [])]"

text \<open>
  The names that the two workflows derive: \<open>{sanitizedAuthor}-{sanitizedName}-{random}\<close>
  for a tool, \<open>{sanitizedName}-{random}\<close> for an output, and the extension that the
  media type of an output maps to.
\<close>

definition toolIdent :: "(jsstring \<Rightarrow> jsstring) \<Rightarrow> uploadInput \<Rightarrow> jsstring \<Rightarrow> jsstring" where
  "toolIdent uni data random =
     sanitizeString uni (nickname data) 20 @ js ''-'' @
     sanitizeString uni (removeJs (file_name (toolFile data))) 30 @ js ''-'' @ random"

definition outputIdent :: "(jsstring \<Rightarrow> jsstring) \<Rightarrow> uploadOutput \<Rightarrow> jsstring \<Rightarrow> jsstring" where
  "outputIdent uni data random =
     sanitizeString uni (removeExtension (file_name (outputFile data))) 30 @ js ''-'' @ random"

definition extensionOf :: "uploadOutput \<Rightarrow> jsstring" where
  "extensionOf data =
     (case map_of mimeToExt (file_type (outputFile data)) of
        None \<Rightarrow> js ''undefined'' | Some ext \<Rightarrow> ext)"

text \<open>
  The fields of a tool upload that fail validation, in the order of the schema: a text
  field fails unless it is a string of one unit or more, the payload fails unless it is a
  file whose name ends in \<open>.js\<close>.
\<close>

definition nonEmptyText :: "form_value option \<Rightarrow> bool" where
  "nonEmptyText v = (case v of Some (FormString s) \<Rightarrow> s \<noteq> [] | _ \<Rightarrow> False)"

definition scriptPayload :: "form_value option \<Rightarrow> bool" where
  "scriptPayload v =
     (case v of Some (FormFile f) \<Rightarrow> endsWith (file_name f) (js ''.js'') | _ \<Rightarrow> False)"

definition invalidFields :: "form_data \<Rightarrow> jsstring list" where
  "invalidFields fd =
     filter (\<lambda>key. \<not> nonEmptyText (map_of fd key))
       [js ''toolName'', js ''toolDescription'', js ''nickname'', js ''modelUsed''] @
     (if scriptPayload (map_of fd (js ''toolFile'')) then [] else [js ''toolFile''])"

text \<open>
  A manifest object on which the tools can be defaulted or extended: the property is
  absent, falsy, or an array.
\<close>

definition toolsDefaultable :: "(jsstring \<times> json) list \<Rightarrow> bool" where
  "toolsDefaultable props =
     (case map_of props (js ''tools'') of None \<Rightarrow> True | Some v \<Rightarrow> \<not> truthy v \<or> isArray v)"

definition exampleBadForm :: form_data where
  "exampleBadForm =
     [(js ''toolName'', FormString []),
      (js ''toolDescription'', FormString (js ''Draws spirals'')),
      (js ''nickname'', FormString (js ''Ada'')),
      (js ''modelUsed'', FormString (js ''none'')),
      (js ''toolFile'',
       FormFile \<lparr>file_name = js ''sketch.txt'', file_type = js ''text/plain'', file_data = []\<rparr>)]"

text \<open>
  An operation stops at a failed call: whatever it does, if one of the calls it makes to
  the store fails, it throws, and that call is the last one it makes.
\<close>

definition failStop :: "'a io \<Rightarrow> bool" where
  "failStop m \<longleftrightarrow>
     (\<forall>rt res rt'. m rt = (res, rt') \<longrightarrow>
        (\<exists>cs. calls rt' = calls rt @ cs \<and>
              (\<forall>i. replies rt' i = replies rt (i + length cs)) \<and>
              (\<forall>k < length cs. storeFailure (cs ! k) (replies rt k) \<longrightarrow> isl res \<and> length cs = Suc k)))"

section \<open>Properties of the sanitizer\<close>

lemma hyphen_not_alnum: "\<not> isLowerAlnum hyphen"
  by (simp add: isLowerAlnum_def hyphen_def)

lemma alnum_not_hyphen: "isLowerAlnum c \<Longrightarrow> c \<noteq> hyphen"
  using hyphen_not_alnum by auto

lemma replaceRuns_chars: "c \<in> set (replaceRuns s) \<Longrightarrow> sanitized_char c"
  by (induction s rule: replaceRuns.induct) (auto simp: sanitized_char_def split: if_splits)

lemma singleHyphens_Cons:
  "singleHyphens (c # t) \<longleftrightarrow> (c = hyphen \<longrightarrow> t = [] \<or> hd t \<noteq> hyphen) \<and> singleHyphens t"
  by (cases t) auto

lemma replaceRuns_takeWhile:
  "replaceRuns s = takeWhile isLowerAlnum s @ replaceRuns (dropWhile isLowerAlnum s)"
  by (induction s) auto

lemma replaceRuns_after_run:
  "replaceRuns (dropWhile (\<lambda>x. \<not> isLowerAlnum x) cs) = [] \<or>
   hd (replaceRuns (dropWhile (\<lambda>x. \<not> isLowerAlnum x) cs)) \<noteq> hyphen"
proof (cases "dropWhile (\<lambda>x. \<not> isLowerAlnum x) cs")
  case Nil
  show ?thesis unfolding Nil by simp
next
  case (Cons d ds)
  then have "isLowerAlnum d"
    using hd_dropWhile [of "\<lambda>x. \<not> isLowerAlnum x" cs] by simp
  with Cons show ?thesis by (simp add: alnum_not_hyphen)
qed

lemma replaceRuns_single: "singleHyphens (replaceRuns s)"
proof (induction s rule: replaceRuns.induct)
  case 1
  then show ?case by simp
next
  case (2 c cs)
  show ?case
  proof (cases "isLowerAlnum c")
    case True
    with 2 show ?thesis by (simp add: singleHyphens_Cons alnum_not_hyphen)
  next
    case False
    with 2 replaceRuns_after_run [of cs] show ?thesis
      by (simp add: singleHyphens_Cons)
  qed
qed

lemma replaceRuns_fixed:
  "\<forall>c \<in> set t. sanitized_char c \<Longrightarrow> singleHyphens t \<Longrightarrow> replaceRuns t = t"
proof (induction t)
  case Nil
  then show ?case by simp
next
  case (Cons c t)
  then have IH: "replaceRuns t = t" by (simp add: singleHyphens_Cons)
  show ?case
  proof (cases "isLowerAlnum c")
    case True
    with IH show ?thesis by simp
  next
    case False
    with Cons.prems have c: "c = hyphen" by (simp add: sanitized_char_def)
    with Cons.prems have "t = [] \<or> hd t \<noteq> hyphen" by (simp add: singleHyphens_Cons)
    then have "dropWhile (\<lambda>x. \<not> isLowerAlnum x) t = t"
      using Cons.prems(1) by (cases t) (auto simp: sanitized_char_def)
    with False c IH show ?thesis by simp
  qed
qed

lemma singleHyphens_take: "singleHyphens t \<Longrightarrow> singleHyphens (take n t)"
proof (induction t arbitrary: n)
  case Nil
  then show ?case by simp
next
  case (Cons c t)
  show ?case
  proof (cases n)
    case 0
    then show ?thesis by simp
  next
    case (Suc m)
    have "take m t = [] \<or> hd (take m t) = hd t"
      by (cases t; cases m) simp_all
    with Cons Suc show ?thesis
      by (auto simp: singleHyphens_Cons)
  qed
qed

lemma singleHyphens_dropWhile: "singleHyphens t \<Longrightarrow> singleHyphens (dropWhile P t)"
  by (induction t) (auto simp: singleHyphens_Cons)

lemma stripTrailing_all: "\<forall>x \<in> set s. x = hyphen \<Longrightarrow> stripTrailingHyphens s = []"
  by (cases s) (auto simp: list_all_iff)

lemma stripTrailing_rev:
  "stripTrailingHyphens s = rev (dropWhile (\<lambda>c. c = hyphen) (rev s))"
proof (induction s)
  case Nil
  then show ?case by simp
next
  case (Cons c cs)
  show ?case
  proof (cases "\<forall>x \<in> set cs. x = hyphen")
    case True
    then have "dropWhile (\<lambda>c. c = hyphen) (rev cs @ [c]) = dropWhile (\<lambda>c. c = hyphen) [c]"
      by (intro dropWhile_append2) simp
    with True show ?thesis
      by (cases "c = hyphen") (simp_all add: stripTrailing_all list_all_iff)
  next
    case False
    then obtain x where "x \<in> set (rev cs)" "\<not> x = hyphen" by auto
    then have "dropWhile (\<lambda>c. c = hyphen) (rev cs @ [c]) = dropWhile (\<lambda>c. c = hyphen) (rev cs) @ [c]"
      by (rule dropWhile_append1)
    with False Cons show ?thesis by (simp add: list_all_iff)
  qed
qed

lemma trimHyphens_spec: "trimHyphens s = spec_trim s"
  by (simp add: trimHyphens_def spec_trim_def stripTrailing_rev)

lemma stripTrailing_take: "stripTrailingHyphens s = take (length (stripTrailingHyphens s)) s"
  by (induction s) auto

lemma replaceRuns_spec: "replaceRuns s = spec_replace s"
  unfolding spec_replace_def
proof (induction isLowerAlnum s rule: runsOf.induct)
  case 1
  then show ?case by simp
next
  case (2 x xs)
  show ?case
  proof (cases "isLowerAlnum x")
    case True
    have "replaceRuns (x # xs) = x # takeWhile isLowerAlnum xs @ replaceRuns (dropWhile isLowerAlnum xs)"
      using True replaceRuns_takeWhile [of xs] by simp
    with 2 True show ?thesis by simp
  next
    case False
    with 2 show ?thesis by simp
  qed
qed

lemma concat_runsOf: "concat (runsOf P s) = s"
  by (induction P s rule: runsOf.induct) simp_all

lemma trimHyphens_hd: "trimHyphens s = [] \<or> hd (trimHyphens s) \<noteq> hyphen"
proof (cases "dropWhile (\<lambda>c. c = hyphen) s")
  case Nil
  show ?thesis unfolding trimHyphens_def Nil by simp
next
  case (Cons d ds)
  then have "d \<noteq> hyphen"
    using hd_dropWhile [of "\<lambda>c. c = hyphen" s] by simp
  with Cons show ?thesis by (simp add: trimHyphens_def)
qed

lemma trimHyphens_subset: "set (trimHyphens s) \<subseteq> set s"
proof -
  have "set (stripTrailingHyphens t) \<subseteq> set t" for t
    by (metis stripTrailing_take set_take_subset)
  then show ?thesis
    unfolding trimHyphens_def using set_dropWhileD by fastforce
qed

lemma trimHyphens_single: "singleHyphens s \<Longrightarrow> singleHyphens (trimHyphens s)"
  unfolding trimHyphens_def
  by (metis stripTrailing_take singleHyphens_take singleHyphens_dropWhile)

lemma sanitize_chars: "c \<in> set (sanitizeString uni s n) \<Longrightarrow> sanitized_char c"
  unfolding sanitizeString_def
  using trimHyphens_subset replaceRuns_chars by (meson in_set_takeD subsetD)

lemma sanitize_single: "singleHyphens (sanitizeString uni s n)"
  unfolding sanitizeString_def
  by (intro singleHyphens_take trimHyphens_single replaceRuns_single)

lemma sanitize_hd: "sanitizeString uni s n = [] \<or> hd (sanitizeString uni s n) \<noteq> hyphen"
proof -
  let ?t = "trimHyphens (replaceRuns (toLowerCase uni s))"
  have "take (nat n) ?t = [] \<or> hd (take (nat n) ?t) = hd ?t"
    by (cases ?t; cases "nat n") simp_all
  with trimHyphens_hd [of "replaceRuns (toLowerCase uni s)"] show ?thesis
    unfolding sanitizeString_def by auto
qed

lemma sanitize_length: "length (sanitizeString uni s n) \<le> nat n"
  by (simp add: sanitizeString_def)

lemma alnum_ascii: "isLowerAlnum c \<Longrightarrow> c < 0x80 \<and> \<not> isAsciiUpper c"
  unfolding isLowerAlnum_def isAsciiUpper_def
  by (auto simp: word_le_nat_alt word_less_nat_alt)

lemma toLowerCase_fixed:
  assumes "\<forall>c \<in> set t. sanitized_char c"
  shows "toLowerCase uni t = t"
proof -
  have h: "hyphen < 0x80 \<and> \<not> isAsciiUpper hyphen"
    by (simp add: hyphen_def isAsciiUpper_def)
  from assms have "\<forall>c \<in> set t. c < 0x80 \<and> \<not> isAsciiUpper c"
    using alnum_ascii h by (auto simp: sanitized_char_def)
  then show ?thesis
    by (simp add: toLowerCase_def asciiLower_def map_idI list_all_iff)
qed

lemma trimHyphens_fixed:
  assumes "t = [] \<or> hd t \<noteq> hyphen" "t = [] \<or> last t \<noteq> hyphen"
  shows "trimHyphens t = t"
proof (cases t)
  case Nil
  then show ?thesis by (simp add: trimHyphens_def)
next
  case (Cons c cs)
  with assms have 1: "dropWhile (\<lambda>c. c = hyphen) t = t" by simp
  have "t \<noteq> []" using Cons by simp
  with assms have "rev t \<noteq> [] \<and> hd (rev t) \<noteq> hyphen" by (simp only: hd_rev) simp
  then have "dropWhile (\<lambda>c. c = hyphen) (rev t) = rev t" by (cases "rev t") auto
  with 1 show ?thesis by (simp add: trimHyphens_def stripTrailing_rev)
qed

lemma trimHyphens_last:
  assumes "singleHyphens t" "t = [] \<or> hd t \<noteq> hyphen" "t \<noteq> []" "last t = hyphen"
  shows "trimHyphens t = butlast t"
proof -
  from assms have 1: "dropWhile (\<lambda>c. c = hyphen) t = t" by (cases t) auto
  have t: "t = butlast t @ [hyphen]" using assms by (metis append_butlast_last_id)
  have "singleHyphens (xs @ [a, hyphen]) \<Longrightarrow> a \<noteq> hyphen" for xs a
    by (induction xs) (auto simp: singleHyphens_Cons)
  then have "butlast t = [] \<or> last (butlast t) \<noteq> hyphen"
    using assms(1) t by (metis append_butlast_last_id append.assoc append_Cons append_Nil)
  then have "dropWhile (\<lambda>c. c = hyphen) (rev (butlast t)) = rev (butlast t)"
    by (cases "rev (butlast t)") (auto simp: last_rev hd_rev)
  then have "stripTrailingHyphens t = butlast t"
    by (subst t, simp add: stripTrailing_rev)
  with 1 show ?thesis by (simp add: trimHyphens_def)
qed

lemma sanitize_again:
  "sanitizeString uni (sanitizeString uni s n) n =
     (if sanitizeString uni s n \<noteq> [] \<and> last (sanitizeString uni s n) = hyphen
      then butlast (sanitizeString uni s n) else sanitizeString uni s n)"
proof -
  let ?r = "sanitizeString uni s n"
  have chars: "\<forall>c \<in> set ?r. sanitized_char c" using sanitize_chars by blast
  have 1: "toLowerCase uni ?r = ?r" using chars by (rule toLowerCase_fixed)
  have 2: "replaceRuns ?r = ?r" using chars sanitize_single by (rule replaceRuns_fixed)
  have len: "length ?r \<le> nat n" by (rule sanitize_length)
  have eq: "sanitizeString uni ?r n = take (nat n) (trimHyphens ?r)"
    by (subst sanitizeString_def) (simp only: 1 2)
  show ?thesis
  proof (cases "?r \<noteq> [] \<and> last ?r = hyphen")
    case True
    then have "trimHyphens ?r = butlast ?r"
      using trimHyphens_last [OF sanitize_single sanitize_hd] by blast
    with eq len True show ?thesis by simp
  next
    case False
    then have "trimHyphens ?r = ?r"
      using trimHyphens_fixed [OF sanitize_hd] by blast
    with eq len False show ?thesis by auto
  qed
qed

lemmas sanitize_eval =
  sanitizeString_def toLowerCase_def js_def asciiLower_def isAsciiUpper_def isLowerAlnum_def
  trimHyphens_def hyphen_def

text \<open>
  C1. The claim: for every string \<open>s\<close> and every \<open>n \<ge> 0\<close>, sanitizing the output of the
  sanitizer again changes nothing. It fails where the truncation cuts just behind a
  hyphen: \<open>sanitize("a b", 2)\<close> is \<open>"a-"\<close>, and sanitizing that gives \<open>"a"\<close>.
\<close>

theorem sanitize_idempotent_counterexample:
  "sanitizeString asciiOnly (sanitizeString asciiOnly (js ''a b'') 2) 2
     \<noteq> sanitizeString asciiOnly (js ''a b'') 2"
  by (simp add: sanitize_eval)

text \<open>
  C1, amended. For every string \<open>s\<close> and every integer \<open>n\<close>: where \<open>sanitize(s, n)\<close> does
  not end with a hyphen, sanitizing it again returns it unchanged; where it ends with a
  hyphen, sanitizing it again removes that one hyphen.
\<close>

theorem sanitize_twice:
  "(sanitizeString uni s n = [] \<or> last (sanitizeString uni s n) \<noteq> hyphen \<longrightarrow>
      sanitizeString uni (sanitizeString uni s n) n = sanitizeString uni s n) \<and>
   (sanitizeString uni s n \<noteq> [] \<and> last (sanitizeString uni s n) = hyphen \<longrightarrow>
      sanitizeString uni (sanitizeString uni s n) n = butlast (sanitizeString uni s n))"
  using sanitize_again [of uni s n] by auto

theorem sanitize_twice_witness:
  "last (sanitizeString asciiOnly (js ''Hello World!!'') 30) \<noteq> hyphen \<and>
   sanitizeString asciiOnly (sanitizeString asciiOnly (js ''Hello World!!'') 30) 30
     = sanitizeString asciiOnly (js ''Hello World!!'') 30 \<and>
   sanitizeString asciiOnly (js ''a b'') 2 \<noteq> [] \<and>
   last (sanitizeString asciiOnly (js ''a b'') 2) = hyphen \<and>
   sanitizeString asciiOnly (sanitizeString asciiOnly (js ''a b'') 2) 2
     = butlast (sanitizeString asciiOnly (js ''a b'') 2)"
proof -
  have a: "last (sanitizeString asciiOnly (js ''Hello World!!'') 30) \<noteq> hyphen"
    by (simp add: sanitize_eval)
  have b: "sanitizeString asciiOnly (js ''a b'') 2 \<noteq> [] \<and>
           last (sanitizeString asciiOnly (js ''a b'') 2) = hyphen"
    by (simp add: sanitize_eval)
  show ?thesis
    using a b sanitize_twice [of asciiOnly "js ''Hello World!!''" 30]
      sanitize_twice [of asciiOnly "js ''a b''" 2]
    by blast
qed

text \<open>
  C5. For every input and \<open>maxLength\<close> the sanitizer computes what the four steps of the
  specification describe, in that order and with no trim after the truncation; in
  particular \<open>sanitize("Hello World!!", 30) = "hello-world"\<close>,
  \<open>sanitize("___", 10) = ""\<close> and \<open>sanitize("abcdefghij", 5) = "abcde"\<close>.
\<close>

theorem sanitize_refines_spec:
  "sanitizeString uni s n = spec_sanitize uni s n \<and>
   sanitizeString uni (js ''Hello World!!'') 30 = js ''hello-world'' \<and>
   sanitizeString uni (js ''___'') 10 = js [] \<and>
   sanitizeString uni (js ''abcdefghij'') 5 = js ''abcde''"
proof -
  have "sanitizeString uni s n = spec_sanitize uni s n"
    by (simp add: sanitizeString_def spec_sanitize_def trimHyphens_spec replaceRuns_spec)
  moreover have "sanitizeString uni (js ''Hello World!!'') 30 = js ''hello-world''"
    by (simp add: sanitize_eval)
  moreover have "sanitizeString uni (js ''___'') 10 = js []"
    by (simp add: sanitize_eval)
  moreover have "sanitizeString uni (js ''abcdefghij'') 5 = js ''abcde''"
    by (simp add: sanitize_eval)
  ultimately show ?thesis by blast
qed

theorem sanitize_refines_spec_witness:
  "sanitizeString asciiOnly (js ''My Sketch (v2)'') 9 = spec_sanitize asciiOnly (js ''My Sketch (v2)'') 9 \<and>
   spec_sanitize asciiOnly (js ''My Sketch (v2)'') 9 = js ''my-sketch''"
proof -
  have "sanitizeString asciiOnly (js ''My Sketch (v2)'') 9 = js ''my-sketch''"
    by (simp add: sanitize_eval)
  then show ?thesis
    using sanitize_refines_spec [of asciiOnly "js ''My Sketch (v2)''" 9] by simp
qed

text \<open>
  C9. For every input string and every \<open>maxLength \<ge> 0\<close>, the result of the sanitizer is
  at most \<open>maxLength\<close> units long, every unit of it is in \<open>[a-z0-9-]\<close>, and it does not
  begin with a hyphen. It can end with one: \<open>sanitize("a b", 2)\<close> is \<open>"a-"\<close>.
\<close>

theorem sanitize_shape:
  assumes "0 \<le> maxLength"
  shows "int (length (sanitizeString uni s maxLength)) \<le> maxLength \<and>
         list_all sanitized_char (sanitizeString uni s maxLength) \<and>
         (sanitizeString uni s maxLength = [] \<or> hd (sanitizeString uni s maxLength) \<noteq> hyphen) \<and>
         sanitizeString uni (js ''a b'') 2 = js ''a-''"
proof -
  have "int (length (sanitizeString uni s maxLength)) \<le> maxLength"
    using assms sanitize_length [of uni s maxLength] by linarith
  moreover have "list_all sanitized_char (sanitizeString uni s maxLength)"
    using sanitize_chars by (auto simp: list_all_iff)
  moreover have "sanitizeString uni (js ''a b'') 2 = js ''a-''"
    by (simp add: sanitize_eval)
  ultimately show ?thesis using sanitize_hd [of uni s maxLength] by blast
qed

theorem sanitize_shape_witness:
  "(0::int) \<le> 4 \<and>
   sanitizeString asciiOnly (js ''--Hello, World'') 4 = js ''hell'' \<and>
   int (length (sanitizeString asciiOnly (js ''--Hello, World'') 4)) \<le> 4 \<and>
   list_all sanitized_char (sanitizeString asciiOnly (js ''--Hello, World'') 4) \<and>
   hd (sanitizeString asciiOnly (js ''--Hello, World'') 4) \<noteq> hyphen"
proof -
  have h: "(0::int) \<le> 4" by simp
  have v: "sanitizeString asciiOnly (js ''--Hello, World'') 4 = js ''hell''"
    by (simp add: sanitize_eval)
  have "js ''hell'' \<noteq> []" by (simp add: js_def)
  with h v show ?thesis
    using sanitize_shape [OF h, of asciiOnly "js ''--Hello, World''"] by auto
qed

section \<open>Runs of the worker\<close>

lemma js_inj: "js a = js b \<longleftrightarrow> a = b"
proof -
  have lt: "(of_char c :: nat) < 2 ^ 16" for c :: char
  proof -
    have "(of_char c :: nat) mod 256 < 256" by simp
    then have "(of_char c :: nat) < 256" by (simp only: of_char_mod_256)
    moreover have "(256::nat) < 2 ^ 16" by simp
    ultimately show ?thesis by (rule less_trans)
  qed
  have "inj (\<lambda>c::char. (of_nat (of_char c) :: 16 word))"
  proof (rule injI)
    fix x y :: char
    assume "(of_nat (of_char x) :: 16 word) = of_nat (of_char y)"
    then have "unat (of_nat (of_char x) :: 16 word) = unat (of_nat (of_char y) :: 16 word)" by simp
    moreover have "unat (of_nat (of_char x) :: 16 word) = of_char x"
      by (rule of_nat_inverse [OF refl]) (use lt [of x] in simp)
    moreover have "unat (of_nat (of_char y) :: 16 word) = of_char y"
      by (rule of_nat_inverse [OF refl]) (use lt [of y] in simp)
    ultimately have "(of_char x :: nat) = of_char y" by simp
    then show "x = y" by simp
  qed
  then show ?thesis unfolding js_def by (simp add: inj_map_eq_map)
qed



lemmas io_defs = andThen_def succeed_def throw_def liftResult_def now_def caseConversion_def

lemma loop_rt:
  "snd (generateRandomString_loop i len result rt) = rt\<lparr>rng := \<lambda>k. rng rt (k + (len - i))\<rparr>"
proof (induction i len result rt rule: generateRandomString_loop.induct)
  case (1 i len result rt)
  show ?case
  proof (cases "i < len")
    case True
    have eq: "(\<lambda>k. rng rt (Suc (k + (len - Suc i)))) = (\<lambda>k. rng rt (k + (len - i)))"
    proof
      fix k
      have "Suc (k + (len - Suc i)) = k + (len - i)" using True by arith
      then show "rng rt (Suc (k + (len - Suc i))) = rng rt (k + (len - i))" by (rule arg_cong)
    qed
    have "snd (generateRandomString_loop i len result rt) =
          snd (generateRandomString_loop (i + 1) len (result @ charAt chars (rng rt 0 mod length chars))
                 (rt\<lparr>rng := \<lambda>i. rng rt (Suc i)\<rparr>))"
      using True by (subst generateRandomString_loop.simps) (simp add: randomIndex_def)
    also have "\<dots> = rt\<lparr>rng := \<lambda>k. rng rt (Suc (k + (len - Suc i)))\<rparr>"
      using 1 [OF True, of "rng rt 0 mod length chars" "rt\<lparr>rng := \<lambda>i. rng rt (Suc i)\<rparr>"]
      by (simp add: randomIndex_def)
    finally show ?thesis by (simp only: eq)
  next
    case False
    then show ?thesis by (subst generateRandomString_loop.simps) simp
  qed
qed

lemma generateRandomString_rt:
  "generateRandomString n rt = (fst (generateRandomString n rt), rt\<lparr>rng := \<lambda>k. rng rt (k + n)\<rparr>)"
  using loop_rt [of 0 n "[]" rt] by (simp add: generateRandomString_def prod_eq_iff)

lemma liftState_generate:
  "liftState (generateRandomString n) rt =
     (Inr (fst (generateRandomString n rt)), rt\<lparr>rng := \<lambda>k. rng rt (k + n)\<rparr>)"
  by (subst liftState_def, subst generateRandomString_rt) simp

subsection \<open>Runtimes\<close>

lemma logged_simps [simp]:
  "replies (logged c rt) i = replies rt (Suc i)"
  "effects (logged c rt) = effects rt @ [Fetched c]"
  "calls (logged c rt) = calls rt @ [c]"
  "rng (logged c rt) = rng rt"
  "clock (logged c rt) = clock rt"
  "unicode (logged c rt) = unicode rt"
  by (simp_all add: logged_def calls_def)

lemma calls_quiet [simp]:
  "calls (rt\<lparr>rng := g\<rparr>) = calls rt"
  "calls (rt\<lparr>effects := effects rt @ [FormParsed]\<rparr>) = calls rt"
  by (simp_all add: calls_def)

lemma http_fetch_logged:
  "http_fetch c rt =
     (case replies rt 0 of Rejected \<Rightarrow> Inl NetworkError | Reply st b \<Rightarrow> Inr (st, b), logged c rt)"
  by (simp add: http_fetch_def logged_def Let_def split: reply.splits)

subsection \<open>Steps that return\<close>

lemma catchAll_Inr:
  assumes "catchAll m rt = (resp, rt')" "status resp \<noteq> 500"
  shows "m rt = (Inr resp, rt')"
  using assms
  by (auto simp: catchAll_def internalError_def jsonResponse_def split: prod.splits sum.splits)

lemma write_Inr:
  assumes "andThen (http_fetch c) (\<lambda>(st, body).
          if \<not> ok st then throw (mk st)
          else case body of NotJson \<Rightarrow> throw SyntaxError | FileObject d s \<Rightarrow> succeed ()) rt = (Inr u, rt1)"
  shows "rt1 = logged c rt"
  using assms
  by (auto simp: http_fetch_logged io_defs split: reply.splits reply_body.splits if_splits)

lemma upload_Inr:
  assumes "uploadToGitHub token owner repo p text message rt = (Inr u, rt1)"
  shows "rt1 = logged (PutFile (contentsUrl owner repo p) (TextContent text) message None) rt"
  using assms unfolding uploadToGitHub_def by (rule write_Inr)

lemma uploadBinary_Inr:
  assumes "uploadBinaryToGitHub token owner repo p buffer message rt = (Inr u, rt1)"
  shows "rt1 = logged (PutFile (contentsUrl owner repo p) (BinaryContent buffer) message None) rt"
  using assms unfolding uploadBinaryToGitHub_def by (rule write_Inr)

lemma putManifest_Inr:
  assumes "putManifest owner repo p manifest message version rt = (Inr u, rt1)"
  shows "rt1 = logged (PutFile (contentsUrl owner repo p) (ManifestContent manifest) message version) rt"
  using assms unfolding putManifest_def by (rule write_Inr)

text \<open>What a successful read tells about the reply: the manifest and the version it shows.\<close>

lemma stored_not_ok [simp]:
  "\<not> ok st \<Longrightarrow> storedManifest (Reply st b) = emptyManifest"
  "\<not> ok st \<Longrightarrow> storedVersion (Reply st b) = None"
  by (cases b; cases "case b of FileObject d s \<Rightarrow> d"; simp)+

lemma current_Inr:
  assumes "andThen (getFromGitHub token owner repo p) (\<lambda>currentManifest.
             case currentManifest of
                Some f \<Rightarrow> andThen (decodeManifest f) (\<lambda>manifest. succeed (manifest, Some (sha f)))
              | None \<Rightarrow> succeed (emptyManifest, None)) rt = (Inr (manifest, version), rt1)"
  shows "rt1 = logged (GetFile (contentsUrl owner repo p)) rt \<and>
         manifest = storedManifest (replies rt 0) \<and> version = storedVersion (replies rt 0)"
  using assms
  by (auto simp: getFromGitHub_def decodeManifest_def http_fetch_logged io_defs
      split: reply.splits reply_body.splits if_splits option.splits)

lemma updateManifestWithTool_Inr:
  assumes "updateManifestWithTool token owner repo p newTool rt = (Inr u, rt2)"
  shows "\<exists>written.
      prependEntry (js ''tools'') (toolJson newTool) (storedManifest (replies rt 0)) = Inr written \<and>
      rt2 = logged (PutFile (contentsUrl owner repo p) (ManifestContent written)
                      (js ''Update manifest with new tool'') (storedVersion (replies rt 0)))
              (logged (GetFile (contentsUrl owner repo p)) rt)"
proof -
  from assms obtain mv rt1 where
    cur: "andThen (getFromGitHub token owner repo p) (\<lambda>currentManifest.
             case currentManifest of
                Some f \<Rightarrow> andThen (decodeManifest f) (\<lambda>manifest. succeed (manifest, Some (sha f)))
              | None \<Rightarrow> succeed (emptyManifest, None)) rt = (Inr mv, rt1)"
    and rest: "(case mv of (manifest, version) \<Rightarrow>
        andThen (liftResult (prependEntry (js ''tools'') (toolJson newTool) manifest)) (\<lambda>manifest'.
        putManifest owner repo p manifest' (js ''Update manifest with new tool'') version)) rt1 = (Inr u, rt2)"
    unfolding updateManifestWithTool_def emptyManifest_def
    by (subst (asm) andThen_def) (auto simp: andThen_def split: prod.splits sum.splits)
  obtain manifest version where mv: "mv = (manifest, version)" by (cases mv)
  from current_Inr [OF cur [unfolded mv]]
  have rt1: "rt1 = logged (GetFile (contentsUrl owner repo p)) rt"
    and m: "manifest = storedManifest (replies rt 0)" and v: "version = storedVersion (replies rt 0)"
    by simp_all
  from rest [unfolded mv] obtain written where
    w: "prependEntry (js ''tools'') (toolJson newTool) manifest = Inr written"
    and put: "putManifest owner repo p written (js ''Update manifest with new tool'') version rt1 = (Inr u, rt2)"
    by (auto simp: andThen_def liftResult_def split: sum.splits)
  from putManifest_Inr [OF put] w show ?thesis by (simp add: rt1 m v)
qed


subsection \<open>The random suffix\<close>

lemma chars_length: "length chars = 36"
  by (simp add: chars_def js_def)

lemma chars_alnum: "list_all isLowerAlnum chars"
  by (simp add: chars_def js_def isLowerAlnum_def)

lemma loop_result:
  "fst (generateRandomString_loop i len result rt) =
     result @ map (\<lambda>k. chars ! (rng rt k mod 36)) [0..<len - i]"
proof (induction i len result rt rule: generateRandomString_loop.induct)
  case (1 i len result rt)
  show ?case
  proof (cases "i < len")
    case True
    let ?x = "rng rt 0 mod length chars"
    let ?rt = "rt\<lparr>rng := \<lambda>i. rng rt (Suc i)\<rparr>"
    have x: "charAt chars ?x = [chars ! (rng rt 0 mod 36)]"
      by (simp add: charAt_def chars_length)
    have "len - i = Suc (len - (i + 1))" using True by simp
    then have upt: "map (\<lambda>k. chars ! (rng rt k mod 36)) [0..<len - i] =
        chars ! (rng rt 0 mod 36) # map (\<lambda>k. chars ! (rng rt (Suc k) mod 36)) [0..<len - (i + 1)]"
      by (simp only: upt_conv_Cons zero_less_Suc list.map map_Suc_upt [symmetric] map_map comp_def)
    have "fst (generateRandomString_loop i len result rt) =
          fst (generateRandomString_loop (i + 1) len (result @ charAt chars ?x) ?rt)"
      using True by (subst generateRandomString_loop.simps) (simp add: randomIndex_def)
    also have "\<dots> = (result @ charAt chars ?x) @
        map (\<lambda>k. chars ! (rng ?rt k mod 36)) [0..<len - (i + 1)]"
      using 1 [OF True, of ?x ?rt] by (simp add: randomIndex_def)
    finally show ?thesis by (simp add: x upt)
  next
    case False
    then show ?thesis by (subst generateRandomString_loop.simps) simp
  qed
qed

lemma generateRandomString_result:
  "fst (generateRandomString n rt) = map (\<lambda>k. chars ! (rng rt k mod 36)) [0..<n]"
  using loop_result [of 0 n "[]" rt] by (simp add: generateRandomString_def)

lemma generateRandomString_shape:
  "length (fst (generateRandomString n rt)) = n \<and> list_all isLowerAlnum (fst (generateRandomString n rt))"
proof -
  have "isLowerAlnum (chars ! (x mod 36))" for x
    using chars_alnum chars_length by (simp add: list_all_length)
  then show ?thesis by (simp add: generateRandomString_result list_all_iff)
qed

subsection \<open>Inversion of a run that returns\<close>

lemma andThen_Inr_iff:
  "andThen m k rt = (Inr y, rt') \<longleftrightarrow> (\<exists>x rt1. m rt = (Inr x, rt1) \<and> k x rt1 = (Inr y, rt'))"
  by (auto simp: andThen_def split: prod.splits sum.splits)

lemma succeed_Inr_iff: "succeed x rt = (Inr y, rt') \<longleftrightarrow> y = x \<and> rt' = rt"
  by (auto simp: succeed_def)

lemma now_Inr_iff: "now rt = (Inr y, rt') \<longleftrightarrow> y = clock rt \<and> rt' = rt"
  by (auto simp: now_def)

lemma caseConversion_Inr_iff: "caseConversion rt = (Inr y, rt') \<longleftrightarrow> y = unicode rt \<and> rt' = rt"
  by (auto simp: caseConversion_def)

lemma generate_Inr_iff:
  "liftState (generateRandomString n) rt = (Inr y, rt') \<longleftrightarrow>
     y = fst (generateRandomString n rt) \<and> rt' = rt\<lparr>rng := \<lambda>k. rng rt (k + n)\<rparr>"
  by (auto simp: liftState_generate)

lemma formData_Inr_iff:
  "formData req rt = (Inr fd, rt1) \<longleftrightarrow>
     req_form req = Some fd \<and> rt1 = rt\<lparr>effects := effects rt @ [FormParsed]\<rparr>"
  by (auto simp: formData_def Let_def split: option.splits)

lemmas inr_simps = andThen_Inr_iff succeed_Inr_iff now_Inr_iff caseConversion_Inr_iff generate_Inr_iff
  formData_Inr_iff

lemma case_option_Inr:
  assumes "(case x of None \<Rightarrow> a | Some f \<Rightarrow> b f) rt = (Inr y, rt')"
  obtains "x = None" "a rt = (Inr y, rt')" | f where "x = Some f" "b f rt = (Inr y, rt')"
  using assms by (cases x) auto

lemma get_Some_Inr:
  assumes "getFromGitHub token owner repo p rt = (Inr (Some f), rt1)"
  shows "rt1 = logged (GetFile (contentsUrl owner repo p)) rt \<and>
         (\<forall>d. content f = Some d \<longrightarrow> storedManifest (replies rt 0) = d)"
  using assms
  by (auto simp: getFromGitHub_def http_fetch_logged io_defs
      split: reply.splits reply_body.splits if_splits)

lemma decode_Inr_iff:
  "decodeManifest f rt = (Inr d, rt') \<longleftrightarrow> content f = Some d \<and> rt' = rt"
  by (auto simp: decodeManifest_def io_defs split: option.splits)

lemma liftResult_Inr_iff: "liftResult r rt = (Inr y, rt') \<longleftrightarrow> r = Inr y \<and> rt' = rt"
  by (auto simp: liftResult_def)

lemma updateManifestWithOutput_Inr:
  assumes "updateManifestWithOutput token owner repo p newOutput rt = (Inr u, rt2)"
  shows "\<exists>written.
      prependEntry (js ''outputs'') (outputJson newOutput) (storedManifest (replies rt 0)) = Inr written \<and>
      rt2 = logged (PutFile (contentsUrl owner repo p) (ManifestContent written)
                      (js ''Update manifest with new output'') (storedVersion (replies rt 0)))
              (logged (GetFile (contentsUrl owner repo p)) rt)"
proof -
  from assms obtain mv rt1 where
    cur: "andThen (getFromGitHub token owner repo p) (\<lambda>currentManifest.
             case currentManifest of
                Some f \<Rightarrow> andThen (decodeManifest f) (\<lambda>manifest. succeed (manifest, Some (sha f)))
              | None \<Rightarrow> succeed (emptyManifest, None)) rt = (Inr mv, rt1)"
    and rest: "(case mv of (manifest, version) \<Rightarrow>
        andThen (liftResult (prependEntry (js ''outputs'') (outputJson newOutput) manifest)) (\<lambda>manifest'.
        putManifest owner repo p manifest' (js ''Update manifest with new output'') version)) rt1 = (Inr u, rt2)"
    unfolding updateManifestWithOutput_def emptyManifest_def
    by (subst (asm) andThen_def) (auto simp: andThen_def split: prod.splits sum.splits)
  obtain manifest version where mv: "mv = (manifest, version)" by (cases mv)
  from current_Inr [OF cur [unfolded mv]]
  have rt1: "rt1 = logged (GetFile (contentsUrl owner repo p)) rt"
    and m: "manifest = storedManifest (replies rt 0)" and v: "version = storedVersion (replies rt 0)"
    by simp_all
  from rest [unfolded mv] obtain written where
    w: "prependEntry (js ''outputs'') (outputJson newOutput) manifest = Inr written"
    and put: "putManifest owner repo p written (js ''Update manifest with new output'') version rt1 = (Inr u, rt2)"
    by (auto simp: andThen_def liftResult_def split: sum.splits)
  from putManifest_Inr [OF put] w show ?thesis by (simp add: rt1 m v)
qed

text \<open>A tool upload answered with 200 has taken every step of the workflow.\<close>

lemma toolUpload_success:
  assumes run: "handleToolUpload req env rt = (resp, rt')" and success: "status resp = 200"
  shows "\<exists>fd data written.
      req_form req = Some fd \<and>
      uploadInputSchema (map_of fd (js ''toolName'')) (map_of fd (js ''toolDescription''))
              (map_of fd (js ''nickname'')) (map_of fd (js ''modelUsed''))
              (map_of fd (js ''toolFile'')) = Inr data \<and>
      prependEntry (js ''tools'')
        (toolJson \<lparr>t_id = toolIdent (unicode rt) data (fst (generateRandomString 6 rt)),
                  t_author = nickname data, t_name = toolName data,
                  t_description = toolDescription data, t_model = modelUsed data,
                  t_url = js ''tools/'' @ toolIdent (unicode rt) data (fst (generateRandomString 6 rt)) @ js ''.js'',
                  t_uploadedAt = clock rt\<rparr>)
        (storedManifest (replies rt 1)) = Inr written \<and>
      resp = jsonResponse (SuccessResponse
          (toolIdent (unicode rt) data (fst (generateRandomString 6 rt)) @ js ''.js'') (galleryUrl env)) 200 \<and>
      callsSince rt rt' =
        [PutFile (contentsUrl (GITHUB_OWNER env) (GITHUB_REPO env)
            (ACTIVE_WORKSHOP_SLUG env @ js ''/tools/'' @
             toolIdent (unicode rt) data (fst (generateRandomString 6 rt)) @ js ''.js''))
           (TextContent (file_data (toolFile data))) (js ''Add sketch by '' @ nickname data) None,
         GetFile (contentsUrl (GITHUB_OWNER env) (GITHUB_REPO env) (ACTIVE_WORKSHOP_SLUG env @ js ''/manifest.json'')),
         PutFile (contentsUrl (GITHUB_OWNER env) (GITHUB_REPO env) (ACTIVE_WORKSHOP_SLUG env @ js ''/manifest.json''))
           (ManifestContent written) (js ''Update manifest with new tool'') (storedVersion (replies rt 1))]"
proof -
  from run success have m: "toolUpload updateManifestWithTool req env rt = (Inr resp, rt')"
    unfolding handleToolUpload_def by (intro catchAll_Inr) simp_all
  then obtain fd where fd: "req_form req = Some fd"
    by (auto simp: toolUpload_def inr_simps)
  show ?thesis
  proof (cases "uploadInputSchema (map_of fd (js ''toolName'')) (map_of fd (js ''toolDescription''))
              (map_of fd (js ''nickname'')) (map_of fd (js ''modelUsed''))
              (map_of fd (js ''toolFile''))")
    case (Inl issues)
    with m fd success show ?thesis
      by (auto simp: toolUpload_def inr_simps jsonResponse_def)
  next
    case (Inr data)
    with m fd show ?thesis
      by (auto simp: toolUpload_def Let_def inr_simps jsonResponse_def generateRandomString_result
          callsSince_def toolIdent_def
          dest!: upload_Inr updateManifestWithTool_Inr)
  qed
qed

text \<open>An output upload answered with 200 has taken every step of the workflow.\<close>

lemma outputUpload_success:
  assumes run: "handleOutputUpload req env rt = (resp, rt')" and success: "status resp = 200"
  shows "\<exists>fd data tool written.
      req_form req = Some fd \<and>
      uploadOutputSchema (map_of fd (js ''toolId'')) (map_of fd (js ''outputFile'')) = Inr data \<and>
      findTool (storedManifest (replies rt 0)) (toolId data) = Inr (Some tool) \<and>
      prependEntry (js ''outputs'')
        (outputJson \<lparr>o_id = outputIdent (unicode rt) data (fst (generateRandomString 6 rt)),
                    o_toolId = toolId data, o_toolUrl = urlOf tool,
                    o_url = js ''outputs/'' @ outputIdent (unicode rt) data (fst (generateRandomString 6 rt))
                              @ js ''.'' @ extensionOf data,
                    o_createdAt = clock rt\<rparr>)
        (storedManifest (replies rt 2)) = Inr written \<and>
      resp = jsonResponse (SuccessResponse
          (outputIdent (unicode rt) data (fst (generateRandomString 6 rt)) @ js ''.'' @ extensionOf data)
          (galleryUrl env)) 200 \<and>
      callsSince rt rt' =
        [GetFile (contentsUrl (GITHUB_OWNER env) (GITHUB_REPO env) (ACTIVE_WORKSHOP_SLUG env @ js ''/manifest.json'')),
         PutFile (contentsUrl (GITHUB_OWNER env) (GITHUB_REPO env)
            (ACTIVE_WORKSHOP_SLUG env @ js ''/outputs/'' @
             outputIdent (unicode rt) data (fst (generateRandomString 6 rt)) @ js ''.'' @ extensionOf data))
           (BinaryContent (file_data (outputFile data))) (js ''Add output for '' @ toolId data) None,
         GetFile (contentsUrl (GITHUB_OWNER env) (GITHUB_REPO env) (ACTIVE_WORKSHOP_SLUG env @ js ''/manifest.json'')),
         PutFile (contentsUrl (GITHUB_OWNER env) (GITHUB_REPO env) (ACTIVE_WORKSHOP_SLUG env @ js ''/manifest.json''))
           (ManifestContent written) (js ''Update manifest with new output'') (storedVersion (replies rt 2))]"
proof -
  from run success have m: "outputUpload req env rt = (Inr resp, rt')"
    unfolding handleOutputUpload_def by (intro catchAll_Inr) simp_all
  then obtain fd where fd: "req_form req = Some fd"
    by (auto simp: outputUpload_def inr_simps)
  show ?thesis
  proof (cases "uploadOutputSchema (map_of fd (js ''toolId'')) (map_of fd (js ''outputFile''))")
    case (Inl issues)
    with m fd success show ?thesis
      by (auto simp: outputUpload_def inr_simps jsonResponse_def)
  next
    case (Inr data)
    with m fd success show ?thesis
      by (auto simp: outputUpload_def Let_def inr_simps decode_Inr_iff liftResult_Inr_iff jsonResponse_def
          generateRandomString_result callsSince_def outputIdent_def extensionOf_def numeral_2_eq_2
          elim!: case_option_Inr
          dest!: uploadBinary_Inr updateManifestWithOutput_Inr get_Some_Inr)
  qed
qed

subsection \<open>No call after a failed call\<close>

lemma failStopI:
  assumes "\<And>rt res rt'. m rt = (res, rt') \<Longrightarrow>
        \<exists>cs. calls rt' = calls rt @ cs \<and>
              (\<forall>i. replies rt' i = replies rt (i + length cs)) \<and>
              (\<forall>k < length cs. storeFailure (cs ! k) (replies rt k) \<longrightarrow> isl res \<and> length cs = Suc k)"
  shows "failStop m"
  using assms unfolding failStop_def by blast

lemma failStop_quiet:
  assumes "\<And>rt. calls (snd (m rt)) = calls rt \<and> replies (snd (m rt)) = replies rt"
  shows "failStop m"
proof (rule failStopI)
  fix rt res rt'
  assume "m rt = (res, rt')"
  then have "calls rt' = calls rt @ [] \<and> (\<forall>i. replies rt' i = replies rt (i + length ([]::store_call list)))"
    using assms [of rt] by simp
  then show "\<exists>cs. calls rt' = calls rt @ cs \<and>
              (\<forall>i. replies rt' i = replies rt (i + length cs)) \<and>
              (\<forall>k < length cs. storeFailure (cs ! k) (replies rt k) \<longrightarrow> isl res \<and> length cs = Suc k)"
    by (intro exI [of _ "[]"]) simp
qed

lemma failStop_succeed [intro!]: "failStop (succeed x)"
  by (rule failStop_quiet) (simp add: succeed_def)

lemma failStop_throw [intro!]: "failStop (throw e)"
  by (rule failStop_quiet) (simp add: throw_def)

lemma failStop_liftResult [intro!]: "failStop (liftResult r)"
  by (rule failStop_quiet) (simp add: liftResult_def)

lemma failStop_generate [intro!]: "failStop (liftState (generateRandomString n))"
  by (rule failStop_quiet) (simp add: liftState_generate calls_def)

lemma failStop_formData [intro!]: "failStop (formData req)"
  by (rule failStop_quiet) (simp add: formData_def calls_def Let_def split: option.splits)

lemma failStop_andThen [intro!]:
  assumes m: "failStop m" and k: "\<And>x. failStop (f x)"
  shows "failStop (andThen m f)"
proof (rule failStopI)
  fix rt res rt'
  assume run: "andThen m f rt = (res, rt')"
  obtain r1 rt1 where m1: "m rt = (r1, rt1)" by (cases "m rt")
  from m m1 obtain cs where cs: "calls rt1 = calls rt @ cs"
      "\<And>i. replies rt1 i = replies rt (i + length cs)"
      "\<And>k. k < length cs \<Longrightarrow> storeFailure (cs ! k) (replies rt k) \<Longrightarrow> isl r1 \<and> length cs = Suc k"
    unfolding failStop_def by blast
  show "\<exists>cs. calls rt' = calls rt @ cs \<and>
              (\<forall>i. replies rt' i = replies rt (i + length cs)) \<and>
              (\<forall>k < length cs. storeFailure (cs ! k) (replies rt k) \<longrightarrow> isl res \<and> length cs = Suc k)"
  proof (cases r1)
    case (Inl e)
    with run m1 have "res = Inl e" "rt' = rt1" by (simp_all add: andThen_def)
    with cs Inl show ?thesis by (intro exI [of _ cs]) auto
  next
    case (Inr x)
    with run m1 have f: "f x rt1 = (res, rt')" by (simp add: andThen_def)
    from k [of x] f obtain ds where ds: "calls rt' = calls rt1 @ ds"
        "\<And>i. replies rt' i = replies rt1 (i + length ds)"
        "\<And>k. k < length ds \<Longrightarrow> storeFailure (ds ! k) (replies rt1 k) \<Longrightarrow> isl res \<and> length ds = Suc k"
      unfolding failStop_def by blast
    have none: "\<not> storeFailure (cs ! k) (replies rt k)" if "k < length cs" for k
      using cs(3) [OF that] Inr by auto
    have "isl res \<and> length (cs @ ds) = Suc k"
      if "k < length (cs @ ds)" "storeFailure ((cs @ ds) ! k) (replies rt k)" for k
    proof (cases "k < length cs")
      case True
      with that none show ?thesis by (simp add: nth_append)
    next
      case False
      then have "k - length cs < length ds" "storeFailure (ds ! (k - length cs)) (replies rt1 (k - length cs))"
        using that cs(2) [of "k - length cs"] by (simp_all add: nth_append)
      from ds(3) [OF this] False show ?thesis by simp
    qed
    moreover have "\<forall>i. replies rt' i = replies rt (i + length (cs @ ds))"
      using cs(2) ds(2) by (simp add: ac_simps)
    ultimately show ?thesis
      using cs(1) ds(1) by (intro exI [of _ "cs @ ds"]) simp
  qed
qed

lemma failStop_fetch_write:
  "failStop (andThen (http_fetch (PutFile url c msg v)) (\<lambda>(st, body).
          if \<not> ok st then throw (mk st)
          else case body of NotJson \<Rightarrow> throw SyntaxError | FileObject d s \<Rightarrow> succeed ()))"
proof (rule failStopI)
  fix rt res rt'
  assume run: "andThen (http_fetch (PutFile url c msg v)) (\<lambda>(st, body).
          if \<not> ok st then throw (mk st)
          else case body of NotJson \<Rightarrow> throw SyntaxError | FileObject d s \<Rightarrow> succeed ()) rt = (res, rt')"
  then have "calls rt' = calls rt @ [PutFile url c msg v] \<and> (\<forall>i. replies rt' i = replies rt (Suc i)) \<and>
       (storeFailure (PutFile url c msg v) (replies rt 0) \<longrightarrow> isl res)"
    by (auto simp: andThen_def http_fetch_def Let_def throw_def succeed_def calls_def
        split: reply.splits reply_body.splits if_splits)
  then show "\<exists>cs. calls rt' = calls rt @ cs \<and>
              (\<forall>i. replies rt' i = replies rt (i + length cs)) \<and>
              (\<forall>k < length cs. storeFailure (cs ! k) (replies rt k) \<longrightarrow> isl res \<and> length cs = Suc k)"
    by (intro exI [of _ "[PutFile url c msg v]"]) simp
qed

lemma failStop_upload [intro!]: "failStop (uploadToGitHub token owner repo p text message)"
  unfolding uploadToGitHub_def by (rule failStop_fetch_write)

lemma failStop_uploadBinary [intro!]: "failStop (uploadBinaryToGitHub token owner repo p buffer message)"
  unfolding uploadBinaryToGitHub_def by (rule failStop_fetch_write)

lemma failStop_putManifest [intro!]: "failStop (putManifest owner repo p manifest message version)"
  unfolding putManifest_def by (rule failStop_fetch_write)

lemma failStop_get [intro!]: "failStop (getFromGitHub token owner repo p)"
proof (rule failStopI)
  fix rt res rt'
  let ?c = "GetFile (contentsUrl owner repo p)"
  assume run: "getFromGitHub token owner repo p rt = (res, rt')"
  then have "calls rt' = calls rt @ [?c] \<and> (\<forall>i. replies rt' i = replies rt (Suc i)) \<and>
       (storeFailure ?c (replies rt 0) \<longrightarrow> isl res)"
    by (auto simp: getFromGitHub_def andThen_def http_fetch_def Let_def throw_def succeed_def calls_def
        split: reply.splits reply_body.splits if_splits)
  then show "\<exists>cs. calls rt' = calls rt @ cs \<and>
              (\<forall>i. replies rt' i = replies rt (i + length cs)) \<and>
              (\<forall>k < length cs. storeFailure (cs ! k) (replies rt k) \<longrightarrow> isl res \<and> length cs = Suc k)"
    by (intro exI [of _ "[?c]"]) simp
qed

lemma failStop_decode [intro!]: "failStop (decodeManifest f)"
  unfolding decodeManifest_def by (cases "content f") auto

lemma failStop_current:
  "failStop (case cur of
       Some f \<Rightarrow> andThen (decodeManifest f) (\<lambda>manifest. succeed (manifest, Some (sha f)))
     | None \<Rightarrow> succeed (d, None))"
  by (cases cur) auto

lemma failStop_updateTool [intro!]: "failStop (updateManifestWithTool token owner repo p newTool)"
  unfolding updateManifestWithTool_def
  by (intro failStop_andThen failStop_get failStop_current) auto

lemma failStop_updateOutput [intro!]: "failStop (updateManifestWithOutput token owner repo p newOutput)"
  unfolding updateManifestWithOutput_def
  by (intro failStop_andThen failStop_get failStop_current) auto

lemma failStop_update [intro!]: "failStop (updateManifest token owner repo p newTool)"
  unfolding updateManifest_def
  by (intro failStop_andThen failStop_get failStop_current) auto


lemma failStop_now [intro!]: "failStop now"
  by (rule failStop_quiet) (simp add: now_def)

lemma failStop_caseConversion [intro!]: "failStop caseConversion"
  by (rule failStop_quiet) (simp add: caseConversion_def)

lemma failStop_toolUpload:
  assumes "\<And>t ow r p e. failStop (update t ow r p e)"
  shows "failStop (toolUpload update req env)"
  unfolding toolUpload_def Let_def
  by (intro failStop_andThen failStop_formData) (auto split: sum.split intro: assms)

lemma failStop_outputUpload: "failStop (outputUpload req env)"
  unfolding outputUpload_def Let_def
  by (intro failStop_andThen failStop_formData) (auto split: sum.split option.split)

lemma failStopD:
  assumes "failStop m" "m rt = (res, rt')" "k < length (callsSince rt rt')"
    "storeFailure (callsSince rt rt' ! k) (replies rt k)"
  shows "isl res \<and> length (callsSince rt rt') = Suc k"
proof -
  from assms(1,2) obtain cs where cs: "calls rt' = calls rt @ cs"
      "\<And>k. k < length cs \<Longrightarrow> storeFailure (cs ! k) (replies rt k) \<Longrightarrow> isl res \<and> length cs = Suc k"
    unfolding failStop_def by blast
  then have "callsSince rt rt' = cs" by (simp add: callsSince_def)
  with cs(2) assms(3,4) show ?thesis by simp
qed

lemma catchAll_failStop:
  assumes "failStop m" "catchAll m rt = (resp, rt')" "k < length (callsSince rt rt')"
    "storeFailure (callsSince rt rt' ! k) (replies rt k)"
  shows "resp = internalError \<and> length (callsSince rt rt') = Suc k"
proof -
  obtain res where m: "m rt = (res, rt')"
    using assms(2) by (cases "m rt") (auto simp: catchAll_def split: sum.splits)
  from failStopD [OF assms(1) m assms(3,4)] have "isl res" "length (callsSince rt rt') = Suc k"
    by simp_all
  with m assms(2) show ?thesis by (cases res) (simp_all add: catchAll_def)
qed

section \<open>Dispatch\<close>

text \<open>
  C8. Dispatch is ordered: \<open>OPTIONS\<close> yields 204; any other method but \<open>POST\<close> yields
  405 whatever the body and the origin are; a \<open>POST\<close> whose origin (the header, or the
  empty string without one) is not the configured one yields 403; in these three cases
  the runtime is unchanged, so no form was parsed and no call was made. Only an
  origin-accepted \<open>POST\<close> has effects, and on a path other than \<open>/upload/tool\<close> and
  \<open>/upload/output\<close> it yields 404 "Not found". The older variant of the entry point
  answers the same on every request that is not an origin-accepted \<open>POST\<close>.
\<close>

theorem dispatch_order:
  "(req_method req = js ''OPTIONS'' \<longrightarrow> fetch req env rt = (\<lparr>status = 204, body = None\<rparr>, rt)) \<and>
   (req_method req \<noteq> js ''OPTIONS'' \<and> req_method req \<noteq> js ''POST'' \<longrightarrow>
      fetch req env rt = (jsonResponse (GeneralErrorResponse (js ''Method not allowed'')) 405, rt)) \<and>
   (req_method req = js ''POST'' \<and> originOf req \<noteq> ALLOWED_ORIGIN env \<longrightarrow>
      fetch req env rt = (jsonResponse (GeneralErrorResponse (js ''Origin not allowed'')) 403, rt)) \<and>
   (req_method req = js ''POST'' \<and> req_origin req = None \<and> ALLOWED_ORIGIN env \<noteq> [] \<longrightarrow>
      fetch req env rt = (jsonResponse (GeneralErrorResponse (js ''Origin not allowed'')) 403, rt)) \<and>
   (effects (snd (fetch req env rt)) \<noteq> effects rt \<longrightarrow>
      req_method req = js ''POST'' \<and> originOf req = ALLOWED_ORIGIN env) \<and>
   (req_method req = js ''POST'' \<and> originOf req = ALLOWED_ORIGIN env \<and>
    req_pathname req \<noteq> js ''/upload/tool'' \<and> req_pathname req \<noteq> js ''/upload/output'' \<longrightarrow>
      fetch req env rt = (jsonResponse (GeneralErrorResponse (js ''Not found'')) 404, rt)) \<and>
   (req_method req \<noteq> js ''POST'' \<or> originOf req \<noteq> ALLOWED_ORIGIN env \<longrightarrow>
      fetch_part_000 req env rt = fetch req env rt)"
proof -
  have "js ''OPTIONS'' \<noteq> js ''POST''" by (simp add: js_inj)
  then show ?thesis
    by (auto simp: fetch_def fetch_part_000_def originOf_def)
qed

theorem dispatch_order_witness:
  "fetch (exampleToolRequest\<lparr>req_method := js ''PUT''\<rparr>) exampleEnv (runtimeOf [])
     = (jsonResponse (GeneralErrorResponse (js ''Method not allowed'')) 405, runtimeOf []) \<and>
   fetch (exampleToolRequest\<lparr>req_origin := None\<rparr>) exampleEnv (runtimeOf [])
     = (jsonResponse (GeneralErrorResponse (js ''Origin not allowed'')) 403, runtimeOf []) \<and>
   fetch (exampleToolRequest\<lparr>req_pathname := js ''/upload''\<rparr>) exampleEnv (runtimeOf [])
     = (jsonResponse (GeneralErrorResponse (js ''Not found'')) 404, runtimeOf [])"
proof -
  have a: "req_method (exampleToolRequest\<lparr>req_method := js ''PUT''\<rparr>) \<noteq> js ''OPTIONS'' \<and>
           req_method (exampleToolRequest\<lparr>req_method := js ''PUT''\<rparr>) \<noteq> js ''POST''"
    by (simp add: js_inj)
  have b: "req_method (exampleToolRequest\<lparr>req_origin := None\<rparr>) = js ''POST'' \<and>
           req_origin (exampleToolRequest\<lparr>req_origin := None\<rparr>) = None \<and>
           ALLOWED_ORIGIN exampleEnv \<noteq> []"
    by (simp add: exampleToolRequest_def exampleEnv_def js_def)
  have c: "req_method (exampleToolRequest\<lparr>req_pathname := js ''/upload''\<rparr>) = js ''POST'' \<and>
           originOf (exampleToolRequest\<lparr>req_pathname := js ''/upload''\<rparr>) = ALLOWED_ORIGIN exampleEnv \<and>
           req_pathname (exampleToolRequest\<lparr>req_pathname := js ''/upload''\<rparr>) \<noteq> js ''/upload/tool'' \<and>
           req_pathname (exampleToolRequest\<lparr>req_pathname := js ''/upload''\<rparr>) \<noteq> js ''/upload/output''"
    by (simp add: exampleToolRequest_def exampleEnv_def originOf_def js_inj)
  note put = dispatch_order [of "exampleToolRequest\<lparr>req_method := js ''PUT''\<rparr>" exampleEnv "runtimeOf []"]
  note missing = dispatch_order [of "exampleToolRequest\<lparr>req_origin := None\<rparr>" exampleEnv "runtimeOf []"]
  note elsewhere =
    dispatch_order [of "exampleToolRequest\<lparr>req_pathname := js ''/upload''\<rparr>" exampleEnv "runtimeOf []"]
  from put [THEN conjunct2, THEN conjunct1, THEN mp, OF a]
    missing [THEN conjunct2, THEN conjunct2, THEN conjunct2, THEN conjunct1, THEN mp, OF b]
    elsewhere [THEN conjunct2, THEN conjunct2, THEN conjunct2, THEN conjunct2, THEN conjunct2,
      THEN conjunct1, THEN mp, OF c]
  show ?thesis by (intro conjI)
qed

section \<open>Validation\<close>

lemma text_field_fails: "isl (zTrim (zStringMin1 msg v)) \<longleftrightarrow> \<not> nonEmptyText v"
  by (auto simp: zTrim_def zStringMin1_def nonEmptyText_def
      split: option.splits form_value.splits sum.splits if_splits)

lemma payload_fails:
  "isl (zRefine (\<lambda>f. endsWith (file_name f) (js ''.js'')) msg (zInstanceofFile msg' v))
     \<longleftrightarrow> \<not> scriptPayload v"
  by (auto simp: zRefine_def zInstanceofFile_def scriptPayload_def
      split: option.splits form_value.splits sum.splits if_splits)

lemma path_fieldIssue: "map path (fieldIssue key r) = (if isl r then [key] else [])"
  by (cases r) (simp_all add: fieldIssue_def)

lemma uploadInputSchema_issues:
  assumes "invalidFields fd \<noteq> []"
  shows "\<exists>issues.
      uploadInputSchema (map_of fd (js ''toolName'')) (map_of fd (js ''toolDescription''))
        (map_of fd (js ''nickname'')) (map_of fd (js ''modelUsed'')) (map_of fd (js ''toolFile''))
        = Inl issues \<and> map path issues = invalidFields fd"
proof -
  let ?a = "zTrim (zStringMin1 (js ''Tool name is required'') (map_of fd (js ''toolName'')))"
  let ?b = "zTrim (zStringMin1 (js ''Description is required'') (map_of fd (js ''toolDescription'')))"
  let ?c = "zTrim (zStringMin1 (js ''Nickname is required'') (map_of fd (js ''nickname'')))"
  let ?d = "zTrim (zStringMin1 (js ''Model used is required'') (map_of fd (js ''modelUsed'')))"
  let ?e = "zRefine (\<lambda>f. endsWith (file_name f) (js ''.js'')) (js ''File must be a JavaScript file (.js)'')
              (zInstanceofFile (js ''A JavaScript file is required'') (map_of fd (js ''toolFile'')))"
  let ?issues = "fieldIssue (js ''toolName'') ?a @ fieldIssue (js ''toolDescription'') ?b @
      fieldIssue (js ''nickname'') ?c @ fieldIssue (js ''modelUsed'') ?d @ fieldIssue (js ''toolFile'') ?e"
  have paths: "map path ?issues = invalidFields fd"
    by (simp add: path_fieldIssue text_field_fails payload_fails invalidFields_def)
  from assms have "isl ?a \<or> isl ?b \<or> isl ?c \<or> isl ?d \<or> isl ?e"
    by (auto simp: invalidFields_def text_field_fails payload_fails split: if_splits)
  then have "uploadInputSchema (map_of fd (js ''toolName'')) (map_of fd (js ''toolDescription''))
        (map_of fd (js ''nickname'')) (map_of fd (js ''modelUsed'')) (map_of fd (js ''toolFile''))
        = Inl ?issues"
    unfolding uploadInputSchema_def Let_def
    by (cases ?a; cases ?b; cases ?c; cases ?d; cases ?e) simp_all
  with paths show ?thesis by blast
qed

text \<open>
  C6. A tool upload whose form has one or more failing fields (a text field that is
  missing, not a string or empty; a payload that is missing or whose name does not end
  in \<open>.js\<close>) is answered with 400 and a list of issues that names every failing field,
  one issue for each and in the order of the schema, and no call to the store is made.
\<close>

theorem validation_lists_every_field:
  assumes "req_form req = Some fd"
    and "invalidFields fd \<noteq> []"
    and "handleToolUpload req env rt = (resp, rt')"
  shows "status resp = 400 \<and>
         (\<exists>issues. body resp = Some (ValidationErrorResponse issues) \<and>
                    map path issues = invalidFields fd) \<and>
         callsSince rt rt' = []"
proof -
  from uploadInputSchema_issues [OF assms(2)] obtain issues where
    "uploadInputSchema (map_of fd (js ''toolName'')) (map_of fd (js ''toolDescription''))
        (map_of fd (js ''nickname'')) (map_of fd (js ''modelUsed'')) (map_of fd (js ''toolFile''))
        = Inl issues" "map path issues = invalidFields fd"
    by blast
  with assms(1,3) show ?thesis
    by (auto simp: handleToolUpload_def catchAll_def toolUpload_def formData_def io_defs
        jsonResponse_def callsSince_def)
qed

theorem validation_lists_every_field_witness:
  "invalidFields exampleBadForm = [js ''toolName'', js ''toolFile''] \<and>
   status (fst (handleToolUpload (exampleToolRequest\<lparr>req_form := Some exampleBadForm\<rparr>) exampleEnv
                  (runtimeOf []))) = 400 \<and>
   (\<exists>issues. body (fst (handleToolUpload (exampleToolRequest\<lparr>req_form := Some exampleBadForm\<rparr>)
                            exampleEnv (runtimeOf [])))
                = Some (ValidationErrorResponse issues) \<and>
              map path issues = [js ''toolName'', js ''toolFile''])"
proof -
  have inv: "invalidFields exampleBadForm = [js ''toolName'', js ''toolFile'']"
    by (simp add: invalidFields_def exampleBadForm_def js_inj nonEmptyText_def scriptPayload_def)
       (simp add: endsWith_def js_def)
  have form: "req_form (exampleToolRequest\<lparr>req_form := Some exampleBadForm\<rparr>) = Some exampleBadForm"
    by simp
  have ne: "invalidFields exampleBadForm \<noteq> []" by (simp add: inv)
  show ?thesis
    using validation_lists_every_field [OF form ne prod.collapse [symmetric], of exampleEnv "runtimeOf []"]
    by (simp add: inv)
qed

section \<open>Lookups that fail\<close>

lemma find_loop_none:
  "list_all (\<lambda>t. t \<noteq> JNull \<and> propOf t (js ''id'') \<noteq> Some (JStr wanted)) ts \<Longrightarrow>
   find_loop wanted ts = Inr None"
proof (induction ts)
  case Nil
  then show ?case by simp
next
  case (Cons t ts)
  then show ?case by (cases t) simp_all
qed

lemma findTool_none: "noToolWithId wanted d \<Longrightarrow> findTool d wanted = Inr None"
  by (cases d) (auto simp: noToolWithId_def find_loop_none split: option.splits json.splits)

text \<open>
  C4. For every output upload that passes validation: where the read of the manifest
  is answered with 404, the response is 404 "Manifest not found"; where the manifest is
  there and its tools (an array without \<open>null\<close> elements, or absent) hold no element
  whose id is the submitted \<open>toolId\<close>, the response is 404 "Tool not found". In both
  cases the request has parsed the form and read the manifest, and nothing else: no
  file is written and the manifest is not written.
\<close>

theorem output_upload_not_found:
  assumes "req_form req = Some fd"
    and "uploadOutputSchema (map_of fd (js ''toolId'')) (map_of fd (js ''outputFile'')) = Inr data"
    and "handleOutputUpload req env rt = (resp, rt')"
  shows "(replies rt 0 = Reply 404 b \<longrightarrow>
            resp = jsonResponse (GeneralErrorResponse (js ''Manifest not found'')) 404 \<and>
            effectsSince rt rt' =
              [FormParsed,
               Fetched (GetFile (contentsUrl (GITHUB_OWNER env) (GITHUB_REPO env)
                                   (ACTIVE_WORKSHOP_SLUG env @ js ''/manifest.json'')))]) \<and>
         (replies rt 0 = Reply st (FileObject (Some d) s) \<and> ok st \<and> noToolWithId (toolId data) d \<longrightarrow>
            resp = jsonResponse (GeneralErrorResponse (js ''Tool not found'')) 404 \<and>
            effectsSince rt rt' =
              [FormParsed,
               Fetched (GetFile (contentsUrl (GITHUB_OWNER env) (GITHUB_REPO env)
                                   (ACTIVE_WORKSHOP_SLUG env @ js ''/manifest.json'')))])"
  using assms
  by (auto simp: handleOutputUpload_def catchAll_def outputUpload_def formData_def io_defs
      getFromGitHub_def decodeManifest_def http_fetch_def Let_def effectsSince_def ok_def findTool_none)

theorem output_upload_not_found_witness:
  "fst (handleOutputUpload exampleOutputRequest exampleEnv (runtimeOf [Reply 404 NotJson]))
     = jsonResponse (GeneralErrorResponse (js ''Manifest not found'')) 404 \<and>
   callsSince (runtimeOf [Reply 404 NotJson])
     (snd (handleOutputUpload exampleOutputRequest exampleEnv (runtimeOf [Reply 404 NotJson])))
     = [GetFile (js ''https://api.github.com/repos/o/r/contents/w/manifest.json'')] \<and>
   fst (handleOutputUpload exampleOutputRequest exampleEnv
          (runtimeOf [Reply 200 (FileObject (Some (JObj [(js ''tools'', JArr [JObj [(js ''id'', JStr (js ''other''))]])]))
                                   (js ''v1''))]))
     = jsonResponse (GeneralErrorResponse (js ''Tool not found'')) 404"
proof -
  let ?absent = "runtimeOf [Reply 404 NotJson]"
  let ?d = "JObj [(js ''tools'', JArr [JObj [(js ''id'', JStr (js ''other''))]])]"
  let ?present = "runtimeOf [Reply 200 (FileObject (Some ?d) (js ''v1''))]"
  let ?fd = "[(js ''toolId'', FormString (js ''ada-l-my-sketch-dkry5c'')),
         (js ''outputFile'',
          FormFile \<lparr>file_name = js ''Run 1.final.PNG'', file_type = js ''image/png'',
                    file_data = [0x89, 0x50]\<rparr>)]"
  let ?data = "\<lparr>toolId = js ''ada-l-my-sketch-dkry5c'',
               outputFile = \<lparr>file_name = js ''Run 1.final.PNG'', file_type = js ''image/png'',
                    file_data = [0x89, 0x50]\<rparr>\<rparr>"
  have form: "req_form exampleOutputRequest = Some ?fd"
    by (simp add: exampleOutputRequest_def)
  have valid: "uploadOutputSchema (map_of ?fd (js ''toolId'')) (map_of ?fd (js ''outputFile'')) = Inr ?data"
    by (simp add: uploadOutputSchema_def zStringMin1_def zRefine_def zInstanceofFile_def js_inj)
       (simp add: js_def)
  have absent: "replies ?absent 0 = Reply 404 NotJson"
    by (simp add: runtimeOf_def scripted_def)
  have present: "replies ?present 0 = Reply 200 (FileObject (Some ?d) (js ''v1'')) \<and> ok 200 \<and>
                 noToolWithId (toolId ?data) ?d"
    by (simp add: runtimeOf_def scripted_def ok_def noToolWithId_def js_inj)
  have url: "contentsUrl (GITHUB_OWNER exampleEnv) (GITHUB_REPO exampleEnv)
               (ACTIVE_WORKSHOP_SLUG exampleEnv @ js ''/manifest.json'')
             = js ''https://api.github.com/repos/o/r/contents/w/manifest.json''"
    by (simp add: contentsUrl_def exampleEnv_def js_def)
  have log: "effects ?absent = []" by (simp add: runtimeOf_def)
  note a = output_upload_not_found [where env = exampleEnv and rt = ?absent and b = NotJson,
      OF form valid prod.collapse [symmetric], THEN conjunct1, THEN mp, OF absent]
  note p = output_upload_not_found [where env = exampleEnv and rt = ?present and st = 200 and d = ?d
        and s = "js ''v1''",
      OF form valid prod.collapse [symmetric], THEN conjunct2, THEN mp, OF present]
  from a have "callsSince ?absent (snd (handleOutputUpload exampleOutputRequest exampleEnv ?absent))
      = [GetFile (js ''https://api.github.com/repos/o/r/contents/w/manifest.json'')]"
    by (simp add: effectsSince_def callsSince_def calls_def log url)
  with a p show ?thesis by simp
qed

section \<open>Failures of the store\<close>

text \<open>
  C7. Whatever the request is: if a call that a workflow makes to the store fails (the
  write-back of the manifest rejected for its version token is one such call), the
  response is 500 with the one fixed message, and the failed call is the last call of
  the request: it is not repeated and nothing done before it is taken back.
\<close>

theorem store_failure_is_internal_error:
  assumes run: "fetch req env rt = (resp, rt')"
    and k: "k < length (callsSince rt rt')"
    and failed: "storeFailure (callsSince rt rt' ! k) (replies rt k)"
  shows "status resp = 500 \<and>
         body resp = Some (GeneralErrorResponse (js ''Internal server error. Please try again.'')) \<and>
         length (callsSince rt rt') = Suc k"
proof -
  have none: "callsSince rt rt = []" by (simp add: callsSince_def)
  consider (toolRoute) "handleToolUpload req env rt = (resp, rt')"
    | (outputRoute) "handleOutputUpload req env rt = (resp, rt')"
    | (noRoute) "rt' = rt"
    using run by (auto simp: fetch_def split: if_splits)
  then have "resp = internalError \<and> length (callsSince rt rt') = Suc k"
  proof cases
    case toolRoute
    have "failStop (toolUpload updateManifestWithTool req env)"
      by (rule failStop_toolUpload) (rule failStop_updateTool)
    from catchAll_failStop [OF this toolRoute [unfolded handleToolUpload_def] k failed]
    show ?thesis .
  next
    case outputRoute
    from catchAll_failStop [OF failStop_outputUpload outputRoute [unfolded handleOutputUpload_def] k failed]
    show ?thesis .
  next
    case noRoute
    with k none show ?thesis by simp
  qed
  then show ?thesis by (simp add: internalError_def jsonResponse_def)
qed

theorem store_failure_is_internal_error_witness:
  "2 < length (callsSince
          (runtimeOf [Reply 201 (FileObject None []),
                      Reply 200 (FileObject (Some exampleManifest) (js ''v1'')), Reply 409 NotJson])
          (snd (fetch exampleToolRequest exampleEnv
             (runtimeOf [Reply 201 (FileObject None []),
                         Reply 200 (FileObject (Some exampleManifest) (js ''v1'')), Reply 409 NotJson])))) \<and>
   replies (runtimeOf [Reply 201 (FileObject None []),
                       Reply 200 (FileObject (Some exampleManifest) (js ''v1'')), Reply 409 NotJson]) 2
     = Reply 409 NotJson \<and>
   status (fst (fetch exampleToolRequest exampleEnv
             (runtimeOf [Reply 201 (FileObject None []),
                         Reply 200 (FileObject (Some exampleManifest) (js ''v1'')), Reply 409 NotJson])))
     = 500 \<and>
   length (callsSince
          (runtimeOf [Reply 201 (FileObject None []),
                      Reply 200 (FileObject (Some exampleManifest) (js ''v1'')), Reply 409 NotJson])
          (snd (fetch exampleToolRequest exampleEnv
             (runtimeOf [Reply 201 (FileObject None []),
                         Reply 200 (FileObject (Some exampleManifest) (js ''v1'')), Reply 409 NotJson]))))
     = 3"
proof -
  let ?rt = "runtimeOf [Reply 201 (FileObject None []),
                        Reply 200 (FileObject (Some exampleManifest) (js ''v1'')), Reply 409 NotJson]"
  have k: "2 < length (callsSince ?rt (snd (fetch exampleToolRequest exampleEnv ?rt)))"
    by code_simp
  have r: "replies ?rt 2 = Reply 409 NotJson"
    by (simp add: runtimeOf_def scripted_def)
  have failed: "storeFailure (callsSince ?rt (snd (fetch exampleToolRequest exampleEnv ?rt)) ! 2) (replies ?rt 2)"
    by (simp add: r ok_def)
  from store_failure_is_internal_error [OF prod.collapse [symmetric] k failed] k r
  show ?thesis by simp
qed

section \<open>The manifest update\<close>

lemma js_append: "js (a @ b) = js a @ js b"
  by (simp add: js_def)

lemma falsy_no_array: "\<not> truthy v \<Longrightarrow> (case v of JArr xs \<Rightarrow> xs | _ \<Rightarrow> []) = []"
  by (cases v) simp_all

lemma prependEntry_Inr:
  assumes "prependEntry key entry d = Inr written" and "\<not> isArray d"
  shows "entriesOf key written = entry # entriesOf key d \<and>
         (\<forall>k. k \<noteq> key \<longrightarrow> propOf written k = propOf d k)"
proof (cases d)
  case (JObj props)
  show ?thesis
  proof (cases "map_of props key")
    case None
    with JObj assms show ?thesis by (auto simp: entriesOf_def update_conv')
  next
    case (Some v)
    show ?thesis
    proof (cases "truthy v")
      case False
      with JObj Some assms show ?thesis
        by (auto simp: entriesOf_def update_conv' falsy_no_array)
    next
      case True
      with JObj Some assms show ?thesis
        by (cases v) (auto simp: entriesOf_def update_conv')
    qed
  qed
qed (use assms in auto)

lemma prependEntry_object:
  assumes "toolsDefaultable props"
  shows "prependEntry (js ''tools'') entry (JObj props) =
         Inr (JObj (AList.update (js ''tools'') (JArr (entry # entriesOf (js ''tools'') (JObj props))) props))"
proof (cases "map_of props (js ''tools'')")
  case None
  then show ?thesis by (simp add: entriesOf_def)
next
  case (Some v)
  with assms show ?thesis
    by (cases v) (auto simp: entriesOf_def toolsDefaultable_def)
qed

text \<open>
  C2. The claim: the update of the tool manifest never crashes on any fetched manifest
  document, because it defaults \<open>tools\<close> before it prepends. It fails on the document
  \<open>null\<close>, where reading \<open>manifest.tools\<close> throws, and on \<open>{"tools": "x"}\<close>, where
  \<open>unshift\<close> is no function; the older \<open>updateManifest\<close> has no default at all and
  throws on \<open>{}\<close>. In all three runs the read is the only call made.
\<close>

theorem manifest_update_never_crashes_counterexample:
  "updateManifestWithTool (js ''t'') (js ''o'') (js ''r'') (js ''w/manifest.json'')
      \<lparr>t_id = js ''a-b-c'', t_author = js ''a'', t_name = js ''b'', t_description = js ''d'',
        t_model = js ''m'', t_url = js ''tools/a-b-c.js'', t_uploadedAt = js ''now''\<rparr>
      (runtimeOf [Reply 200 (FileObject (Some JNull) (js ''v1''))])
     = (Inl TypeError,
        logged (GetFile (js ''https://api.github.com/repos/o/r/contents/w/manifest.json''))
          (runtimeOf [Reply 200 (FileObject (Some JNull) (js ''v1''))])) \<and>
   updateManifestWithTool (js ''t'') (js ''o'') (js ''r'') (js ''w/manifest.json'')
      \<lparr>t_id = js ''a-b-c'', t_author = js ''a'', t_name = js ''b'', t_description = js ''d'',
        t_model = js ''m'', t_url = js ''tools/a-b-c.js'', t_uploadedAt = js ''now''\<rparr>
      (runtimeOf [Reply 200 (FileObject (Some (JObj [(js ''tools'', JStr (js ''x''))])) (js ''v1''))])
     = (Inl TypeError,
        logged (GetFile (js ''https://api.github.com/repos/o/r/contents/w/manifest.json''))
          (runtimeOf [Reply 200 (FileObject (Some (JObj [(js ''tools'', JStr (js ''x''))])) (js ''v1''))])) \<and>
   updateManifest (js ''t'') (js ''o'') (js ''r'') (js ''w/manifest.json'')
      \<lparr>t_id = js ''a-b-c'', t_author = js ''a'', t_name = js ''b'', t_description = js ''d'',
        t_model = js ''m'', t_url = js ''tools/a-b-c.js'', t_uploadedAt = js ''now''\<rparr>
      (runtimeOf [Reply 200 (FileObject (Some (JObj [])) (js ''v1''))])
     = (Inl TypeError,
        logged (GetFile (js ''https://api.github.com/repos/o/r/contents/w/manifest.json''))
          (runtimeOf [Reply 200 (FileObject (Some (JObj [])) (js ''v1''))]))"
proof -
  have url: "contentsUrl (js ''o'') (js ''r'') (js ''w/manifest.json'')
      = js ''https://api.github.com/repos/o/r/contents/w/manifest.json''"
    by (simp add: contentsUrl_def js_def)
  have x: "js ''x'' \<noteq> []" by (simp add: js_def)
  show ?thesis
    by (simp add: updateManifestWithTool_def updateManifest_def getFromGitHub_def decodeManifest_def
        http_fetch_logged io_defs runtimeOf_def scripted_def ok_def url x)
qed

text \<open>
  C2, amended. In \<open>updateManifestWithTool\<close>: where the manifest file is absent, the
  manifest written is \<open>{tools: [entry], outputs: []}\<close>, with no version token; where the
  fetched document is an object whose \<open>tools\<close> is absent, falsy or an array, the manifest
  written is that object with \<open>tools\<close> set to the entry followed by the elements that
  were there (none where there was no array), with the version token of the read. In
  both cases no \<open>TypeError\<close> is thrown.
\<close>

theorem manifest_update_defaults:
  "(replies rt 0 = Reply 404 b \<longrightarrow>
      fst (updateManifestWithTool token owner repo p newTool rt) \<noteq> Inl TypeError \<and>
      callsSince rt (snd (updateManifestWithTool token owner repo p newTool rt)) =
        [GetFile (contentsUrl owner repo p),
         PutFile (contentsUrl owner repo p)
           (ManifestContent (JObj [(js ''tools'', JArr [toolJson newTool]), (js ''outputs'', JArr [])]))
           (js ''Update manifest with new tool'') None]) \<and>
   (replies rt 0 = Reply st (FileObject (Some (JObj props)) s) \<and> ok st \<and> toolsDefaultable props \<longrightarrow>
      fst (updateManifestWithTool token owner repo p newTool rt) \<noteq> Inl TypeError \<and>
      callsSince rt (snd (updateManifestWithTool token owner repo p newTool rt)) =
        [GetFile (contentsUrl owner repo p),
         PutFile (contentsUrl owner repo p)
           (ManifestContent
              (JObj (AList.update (js ''tools'')
                       (JArr (toolJson newTool # entriesOf (js ''tools'') (JObj props))) props)))
           (js ''Update manifest with new tool'') (Some s)])"
proof -
  have tools: "js ''tools'' \<noteq> js ''outputs''" by (simp add: js_inj)
  have absent: "replies rt 0 = Reply 404 b \<Longrightarrow> ?thesis"
    using tools
    by (auto simp: updateManifestWithTool_def getFromGitHub_def decodeManifest_def putManifest_def
        http_fetch_logged io_defs ok_def callsSince_def
        split: reply.splits reply_body.splits)
  have present: "replies rt 0 = Reply st (FileObject (Some (JObj props)) s) \<Longrightarrow> ok st \<Longrightarrow>
      toolsDefaultable props \<Longrightarrow> ?thesis"
    by (auto simp: updateManifestWithTool_def getFromGitHub_def decodeManifest_def putManifest_def
        http_fetch_logged io_defs callsSince_def prependEntry_object ok_def
        simp del: prependEntry.simps
        split: reply.splits reply_body.splits)
  from absent present show ?thesis by (cases "replies rt 0 = Reply 404 b") auto
qed

theorem manifest_update_defaults_witness:
  "callsSince (runtimeOf [Reply 404 NotJson, Reply 201 (FileObject None [])])
     (snd (updateManifestWithTool (js ''t'') (js ''o'') (js ''r'') (js ''w/manifest.json'')
        \<lparr>t_id = js ''a-b-c'', t_author = js ''a'', t_name = js ''b'', t_description = js ''d'',
          t_model = js ''m'', t_url = js ''tools/a-b-c.js'', t_uploadedAt = js ''now''\<rparr>
        (runtimeOf [Reply 404 NotJson, Reply 201 (FileObject None [])]))) =
     [GetFile (contentsUrl (js ''o'') (js ''r'') (js ''w/manifest.json'')),
      PutFile (contentsUrl (js ''o'') (js ''r'') (js ''w/manifest.json''))
        (ManifestContent (JObj
           [(js ''tools'',
             JArr [toolJson \<lparr>t_id = js ''a-b-c'', t_author = js ''a'', t_name = js ''b'',
                     t_description = js ''d'', t_model = js ''m'', t_url = js ''tools/a-b-c.js'',
                     t_uploadedAt = js ''now''\<rparr>]),
            (js ''outputs'', JArr [])]))
        (js ''Update manifest with new tool'') None] \<and>
   callsSince (runtimeOf [Reply 200 (FileObject (Some (JObj [(js ''outputs'', JArr [])])) (js ''v1'')),
                          Reply 200 (FileObject None [])])
     (snd (updateManifestWithTool (js ''t'') (js ''o'') (js ''r'') (js ''w/manifest.json'')
        \<lparr>t_id = js ''a-b-c'', t_author = js ''a'', t_name = js ''b'', t_description = js ''d'',
          t_model = js ''m'', t_url = js ''tools/a-b-c.js'', t_uploadedAt = js ''now''\<rparr>
        (runtimeOf [Reply 200 (FileObject (Some (JObj [(js ''outputs'', JArr [])])) (js ''v1'')),
                    Reply 200 (FileObject None [])]))) =
     [GetFile (contentsUrl (js ''o'') (js ''r'') (js ''w/manifest.json'')),
      PutFile (contentsUrl (js ''o'') (js ''r'') (js ''w/manifest.json''))
        (ManifestContent (JObj
           [(js ''outputs'', JArr []),
            (js ''tools'',
             JArr [toolJson \<lparr>t_id = js ''a-b-c'', t_author = js ''a'', t_name = js ''b'',
                     t_description = js ''d'', t_model = js ''m'', t_url = js ''tools/a-b-c.js'',
                     t_uploadedAt = js ''now''\<rparr>])]))
        (js ''Update manifest with new tool'') (Some (js ''v1''))]"
proof -
  let ?absent = "runtimeOf [Reply 404 NotJson, Reply 201 (FileObject None [])]"
  let ?props = "[(js ''outputs'', JArr [])]"
  let ?present = "runtimeOf [Reply 200 (FileObject (Some (JObj ?props)) (js ''v1'')),
                             Reply 200 (FileObject None [])]"
  have a: "replies ?absent 0 = Reply 404 NotJson"
    by (simp add: runtimeOf_def scripted_def)
  have p: "replies ?present 0 = Reply 200 (FileObject (Some (JObj ?props)) (js ''v1'')) \<and> ok 200 \<and>
           toolsDefaultable ?props"
    by (simp add: runtimeOf_def scripted_def ok_def toolsDefaultable_def js_inj)
  have none: "entriesOf (js ''tools'') (JObj ?props) = []"
    by (simp add: entriesOf_def js_inj)
  from manifest_update_defaults [where rt = ?absent and b = NotJson, THEN conjunct1, THEN mp, OF a]
    manifest_update_defaults [where rt = ?present and st = 200 and props = ?props and s = "js ''v1''",
      THEN conjunct2, THEN mp, OF p]
  show ?thesis by (simp add: none js_inj)
qed

section \<open>Successful uploads\<close>

lemma propOf_toolJson:
  "propOf (toolJson e) (js ''id'') = Some (JStr (t_id e))"
  "propOf (toolJson e) (js ''url'') = Some (JStr (t_url e))"
  by (simp_all add: toolJson_def js_inj)

lemma propOf_outputJson:
  "propOf (outputJson e) (js ''id'') = Some (JStr (o_id e))"
  "propOf (outputJson e) (js ''url'') = Some (JStr (o_url e))"
  by (cases "o_toolUrl e"; simp add: outputJson_def js_inj)+

text \<open>
  C3. The claim: after every valid tool upload that succeeds, the tools of the manifest
  written are the tools stored before with one new entry in front. It fails where the
  manifest that the store shows is a JSON array, here \<open>[1, 2]\<close>: the array is truthy and
  has no \<open>tools\<close>, so \<open>manifest.tools = []\<close> and \<open>unshift\<close> work on a named property of the
  array, which \<open>JSON.stringify\<close> leaves out. The request is answered with 200, and the
  third call writes \<open>[1, 2]\<close> back, a document without tools and without the entry.
\<close>

theorem tool_upload_prepends_counterexample:
  "fst (handleToolUpload exampleToolRequest exampleEnv
      (runtimeOf [Reply 201 (FileObject None []),
                  Reply 200 (FileObject (Some (JArr [JNum 1, JNum 2])) (js ''v1'')),
                  Reply 200 (FileObject None [])]))
     = jsonResponse (SuccessResponse (js ''ada-l-my-sketch-dkry5c.js'') (js ''https://o.github.io/r/w/'')) 200 \<and>
   length (callsSince
      (runtimeOf [Reply 201 (FileObject None []),
                  Reply 200 (FileObject (Some (JArr [JNum 1, JNum 2])) (js ''v1'')),
                  Reply 200 (FileObject None [])])
      (snd (handleToolUpload exampleToolRequest exampleEnv
         (runtimeOf [Reply 201 (FileObject None []),
                  Reply 200 (FileObject (Some (JArr [JNum 1, JNum 2])) (js ''v1'')),
                  Reply 200 (FileObject None [])])))) = 3 \<and>
   callsSince
      (runtimeOf [Reply 201 (FileObject None []),
                  Reply 200 (FileObject (Some (JArr [JNum 1, JNum 2])) (js ''v1'')),
                  Reply 200 (FileObject None [])])
      (snd (handleToolUpload exampleToolRequest exampleEnv
         (runtimeOf [Reply 201 (FileObject None []),
                  Reply 200 (FileObject (Some (JArr [JNum 1, JNum 2])) (js ''v1'')),
                  Reply 200 (FileObject None [])]))) ! 2 =
      PutFile (js ''https://api.github.com/repos/o/r/contents/w/manifest.json'')
        (ManifestContent (JArr [JNum 1, JNum 2])) (js ''Update manifest with new tool'')
        (Some (js ''v1'')) \<and>
   entriesOf (js ''tools'') (JArr [JNum 1, JNum 2]) = []"
  by code_simp

text \<open>
  C3, amended. For every tool upload that is answered with 200 (which only a valid request is),
  where the manifest that the store showed is no JSON array: the third and last call
  writes a manifest whose tools are one new entry, at index 0, followed by the tools of
  the manifest read; the id of the entry is \<open>{sanitizedAuthor}-{sanitizedName}-{random}\<close>,
  made of \<open>sanitize(nickname, 20)\<close>, \<open>sanitize(name without .js, 30)\<close> and the six units
  of \<open>[a-z0-9]\<close> that \<open>generateRandomString(6)\<close> returned; every other property of the
  manifest, the outputs among them, is written as it was read.
\<close>

theorem tool_upload_prepends:
  assumes run: "handleToolUpload req env rt = (resp, rt')"
    and success: "status resp = 200"
    and shape: "\<not> isArray (storedManifest (replies rt 1))"
  shows "\<exists>fd data written.
      req_form req = Some fd \<and>
      uploadInputSchema (map_of fd (js ''toolName'')) (map_of fd (js ''toolDescription''))
        (map_of fd (js ''nickname'')) (map_of fd (js ''modelUsed'')) (map_of fd (js ''toolFile''))
        = Inr data \<and>
      length (callsSince rt rt') = 3 \<and>
      callsSince rt rt' ! 2 =
        PutFile (contentsUrl (GITHUB_OWNER env) (GITHUB_REPO env)
                   (ACTIVE_WORKSHOP_SLUG env @ js ''/manifest.json''))
          (ManifestContent written) (js ''Update manifest with new tool'')
          (storedVersion (replies rt 1)) \<and>
      entriesOf (js ''tools'') written =
        toolJson \<lparr>t_id = toolIdent (unicode rt) data (fst (generateRandomString 6 rt)),
                  t_author = nickname data, t_name = toolName data,
                  t_description = toolDescription data, t_model = modelUsed data,
                  t_url = js ''tools/'' @ toolIdent (unicode rt) data (fst (generateRandomString 6 rt))
                            @ js ''.js'',
                  t_uploadedAt = clock rt\<rparr>
        # entriesOf (js ''tools'') (storedManifest (replies rt 1)) \<and>
      (\<forall>key. key \<noteq> js ''tools'' \<longrightarrow>
         propOf written key = propOf (storedManifest (replies rt 1)) key) \<and>
      length (fst (generateRandomString 6 rt)) = 6 \<and>
      list_all isLowerAlnum (fst (generateRandomString 6 rt))"
proof -
  from toolUpload_success [OF run success] obtain fd data written where
    fd: "req_form req = Some fd"
    and data: "uploadInputSchema (map_of fd (js ''toolName'')) (map_of fd (js ''toolDescription''))
        (map_of fd (js ''nickname'')) (map_of fd (js ''modelUsed'')) (map_of fd (js ''toolFile''))
        = Inr data"
    and written: "prependEntry (js ''tools'')
        (toolJson \<lparr>t_id = toolIdent (unicode rt) data (fst (generateRandomString 6 rt)),
                  t_author = nickname data, t_name = toolName data,
                  t_description = toolDescription data, t_model = modelUsed data,
                  t_url = js ''tools/'' @ toolIdent (unicode rt) data (fst (generateRandomString 6 rt))
                            @ js ''.js'',
                  t_uploadedAt = clock rt\<rparr>)
        (storedManifest (replies rt 1)) = Inr written"
    and calls: "callsSince rt rt' =
        [PutFile (contentsUrl (GITHUB_OWNER env) (GITHUB_REPO env)
            (ACTIVE_WORKSHOP_SLUG env @ js ''/tools/'' @
             toolIdent (unicode rt) data (fst (generateRandomString 6 rt)) @ js ''.js''))
           (TextContent (file_data (toolFile data))) (js ''Add sketch by '' @ nickname data) None,
         GetFile (contentsUrl (GITHUB_OWNER env) (GITHUB_REPO env) (ACTIVE_WORKSHOP_SLUG env @ js ''/manifest.json'')),
         PutFile (contentsUrl (GITHUB_OWNER env) (GITHUB_REPO env) (ACTIVE_WORKSHOP_SLUG env @ js ''/manifest.json''))
           (ManifestContent written) (js ''Update manifest with new tool'') (storedVersion (replies rt 1))]"
    by blast
  note prependEntry_Inr [OF written shape] generateRandomString_shape [of 6 rt]
  with fd data calls show ?thesis by (intro exI [of _ fd] exI [of _ data] exI [of _ written]) simp
qed

theorem tool_upload_prepends_witness:
  "status (fst (handleToolUpload exampleToolRequest exampleEnv
      (runtimeOf [Reply 201 (FileObject None []),
                  Reply 200 (FileObject (Some exampleManifest) (js ''v1'')),
                  Reply 200 (FileObject None [])]))) = 200 \<and>
   \<not> isArray (storedManifest
      (replies (runtimeOf [Reply 201 (FileObject None []),
                  Reply 200 (FileObject (Some exampleManifest) (js ''v1'')),
                  Reply 200 (FileObject None [])]) 1)) \<and>
   (\<exists>written.
      callsSince
        (runtimeOf [Reply 201 (FileObject None []),
                  Reply 200 (FileObject (Some exampleManifest) (js ''v1'')),
                  Reply 200 (FileObject None [])])
        (snd (handleToolUpload exampleToolRequest exampleEnv
           (runtimeOf [Reply 201 (FileObject None []),
                  Reply 200 (FileObject (Some exampleManifest) (js ''v1'')),
                  Reply 200 (FileObject None [])]))) ! 2 =
        PutFile (js ''https://api.github.com/repos/o/r/contents/w/manifest.json'')
          (ManifestContent written) (js ''Update manifest with new tool'') (Some (js ''v1'')) \<and>
      length (entriesOf (js ''tools'') written) = 2 \<and>
      propOf (hd (entriesOf (js ''tools'') written)) (js ''id'') = Some (JStr (js ''ada-l-my-sketch-dkry5c'')) \<and>
      tl (entriesOf (js ''tools'') written) = entriesOf (js ''tools'') exampleManifest \<and>
      propOf written (js ''outputs'') = Some (JArr []))"
proof -
  let ?rt = "runtimeOf [Reply 201 (FileObject None []),
                  Reply 200 (FileObject (Some exampleManifest) (js ''v1'')),
                  Reply 200 (FileObject None [])]"
  have s: "status (fst (handleToolUpload exampleToolRequest exampleEnv ?rt)) = 200"
    by code_simp
  have r: "replies ?rt 1 = Reply 200 (FileObject (Some exampleManifest) (js ''v1''))"
    by (simp add: runtimeOf_def scripted_def)
  have m: "storedManifest (replies ?rt 1) = exampleManifest" "storedVersion (replies ?rt 1) = Some (js ''v1'')"
    unfolding r by (simp_all add: ok_def)
  note m = m m [unfolded One_nat_def]
  have n: "\<not> isArray (storedManifest (replies ?rt 1))"
    unfolding m by (simp add: exampleManifest_def)
  have form: "req_form exampleToolRequest = Some exampleToolForm"
    by (simp add: exampleToolRequest_def)
  have u: "unicode ?rt = asciiOnly" by (simp add: runtimeOf_def)
  have url: "contentsUrl (GITHUB_OWNER exampleEnv) (GITHUB_REPO exampleEnv)
               (ACTIVE_WORKSHOP_SLUG exampleEnv @ js ''/manifest.json'')
             = js ''https://api.github.com/repos/o/r/contents/w/manifest.json''"
    by (simp add: contentsUrl_def exampleEnv_def js_def)
  have outputs: "propOf exampleManifest (js ''outputs'') = Some (JArr [])"
    by (simp add: exampleManifest_def js_inj)
  have random: "fst (generateRandomString 6 ?rt) = js ''dkry5c''"
    by code_simp
  from tool_upload_prepends [OF prod.collapse [symmetric] s n] obtain fd data written where
    fd: "req_form exampleToolRequest = Some fd"
    and data: "uploadInputSchema (map_of fd (js ''toolName'')) (map_of fd (js ''toolDescription''))
        (map_of fd (js ''nickname'')) (map_of fd (js ''modelUsed'')) (map_of fd (js ''toolFile''))
        = Inr data"
    and put: "callsSince ?rt (snd (handleToolUpload exampleToolRequest exampleEnv ?rt)) ! 2 =
        PutFile (contentsUrl (GITHUB_OWNER exampleEnv) (GITHUB_REPO exampleEnv)
                   (ACTIVE_WORKSHOP_SLUG exampleEnv @ js ''/manifest.json''))
          (ManifestContent written) (js ''Update manifest with new tool'')
          (storedVersion (replies ?rt 1))"
    and tools: "entriesOf (js ''tools'') written =
        toolJson \<lparr>t_id = toolIdent (unicode ?rt) data (fst (generateRandomString 6 ?rt)),
                  t_author = nickname data, t_name = toolName data,
                  t_description = toolDescription data, t_model = modelUsed data,
                  t_url = js ''tools/'' @ toolIdent (unicode ?rt) data (fst (generateRandomString 6 ?rt))
                            @ js ''.js'',
                  t_uploadedAt = clock ?rt\<rparr>
        # entriesOf (js ''tools'') (storedManifest (replies ?rt 1))"
    and rest: "\<forall>key. key \<noteq> js ''tools'' \<longrightarrow>
         propOf written key = propOf (storedManifest (replies ?rt 1)) key"
    by blast
  from fd form have "fd = exampleToolForm" by simp
  with data have "data =
      \<lparr>toolName = js ''Spiral'', toolDescription = js ''Draws spirals'', nickname = trim (js '' Ada L. ''),
       modelUsed = js ''none'',
       toolFile = \<lparr>file_name = js ''My Sketch.js'', file_type = js ''text/javascript'',
                   file_data = [0x2F, 0x2F]\<rparr>\<rparr>"
    by (simp add: exampleToolForm_def js_inj uploadInputSchema_def zTrim_def zStringMin1_def
        zRefine_def zInstanceofFile_def Let_def)
       (simp add: js_def endsWith_def trim_def isWhiteSpace_def)
  then have ident: "toolIdent (unicode ?rt) data (fst (generateRandomString 6 ?rt)) = js ''ada-l-my-sketch-dkry5c''"
    unfolding u random
    by (simp add: toolIdent_def) (simp add: sanitize_eval trim_def isWhiteSpace_def)
  have "js ''outputs'' \<noteq> js ''tools''" by (simp add: js_inj)
  with rest outputs have o: "propOf written (js ''outputs'') = Some (JArr [])"
    by (simp add: m)
  have two: "length (entriesOf (js ''tools'') written) = 2"
    by (simp add: tools m) (simp add: entriesOf_def exampleManifest_def js_inj)
  show ?thesis
    using s n put o two
    by (intro conjI exI [of _ written]) (simp_all add: tools propOf_toolJson ident m url)
qed

lemma validated_output:
  assumes "uploadOutputSchema v w = Inr data"
  shows "w = Some (FormFile (outputFile data)) \<and>
         map_of mimeToExt (file_type (outputFile data)) = Some (extensionOf data)"
proof -
  from assms have "w = Some (FormFile (outputFile data)) \<and> file_type (outputFile data) \<in>
      set [js ''image/png'', js ''image/jpeg'', js ''image/webp'', js ''image/gif'']"
    by (auto simp: uploadOutputSchema_def Let_def zRefine_def zInstanceofFile_def zStringMin1_def
        split: option.splits form_value.splits sum.splits if_splits)
  then show ?thesis
    by (auto simp: extensionOf_def mimeToExt_def js_inj)
qed

text \<open>
  C10. For every upload answered with 200 the names cohere. Tool: the filename of the
  response is \<open>id.js\<close>, the file is stored at \<open>{namespace}/tools/id.js\<close>, and the entry
  that the update prepends to the manifest read (it is the head of the tools written,
  unless that manifest is a JSON array) has this \<open>id\<close> and the url \<open>tools/id.js\<close>.
  Output: with \<open>ext\<close> the extension that the table maps the media type of the file to,
  the filename is \<open>id.ext\<close>, the file is stored at \<open>{namespace}/outputs/id.ext\<close>, and the
  entry prepended to the outputs has this \<open>id\<close> and the url \<open>outputs/id.ext\<close>.
\<close>

theorem names_cohere:
  "(handleToolUpload req env rt = (resp, rt') \<and> status resp = 200 \<longrightarrow>
      (\<exists>ident entry payload message written version.
         body resp = Some (SuccessResponse (ident @ js ''.js'') (galleryUrl env)) \<and>
         callsSince rt rt' ! 0 =
           PutFile (contentsUrl (GITHUB_OWNER env) (GITHUB_REPO env)
                      (ACTIVE_WORKSHOP_SLUG env @ js ''/'' @ js ''tools/'' @ ident @ js ''.js''))
             payload message None \<and>
         callsSince rt rt' ! 2 =
           PutFile (contentsUrl (GITHUB_OWNER env) (GITHUB_REPO env)
                      (ACTIVE_WORKSHOP_SLUG env @ js ''/manifest.json''))
             (ManifestContent written) (js ''Update manifest with new tool'') version \<and>
         prependEntry (js ''tools'') entry (storedManifest (replies rt 1)) = Inr written \<and>
         (\<not> isArray (storedManifest (replies rt 1)) \<longrightarrow>
            hd (entriesOf (js ''tools'') written) = entry) \<and>
         propOf entry (js ''id'') = Some (JStr ident) \<and>
         propOf entry (js ''url'') = Some (JStr (js ''tools/'' @ ident @ js ''.js'')))) \<and>
   (handleOutputUpload req env rt = (resp, rt') \<and> status resp = 200 \<longrightarrow>
      (\<exists>fd f ext ident entry payload message written version.
         req_form req = Some fd \<and> map_of fd (js ''outputFile'') = Some (FormFile f) \<and>
         map_of mimeToExt (file_type f) = Some ext \<and>
         body resp = Some (SuccessResponse (ident @ js ''.'' @ ext) (galleryUrl env)) \<and>
         callsSince rt rt' ! 1 =
           PutFile (contentsUrl (GITHUB_OWNER env) (GITHUB_REPO env)
                      (ACTIVE_WORKSHOP_SLUG env @ js ''/'' @ js ''outputs/'' @ ident @ js ''.'' @ ext))
             payload message None \<and>
         callsSince rt rt' ! 3 =
           PutFile (contentsUrl (GITHUB_OWNER env) (GITHUB_REPO env)
                      (ACTIVE_WORKSHOP_SLUG env @ js ''/manifest.json''))
             (ManifestContent written) (js ''Update manifest with new output'') version \<and>
         prependEntry (js ''outputs'') entry (storedManifest (replies rt 2)) = Inr written \<and>
         (\<not> isArray (storedManifest (replies rt 2)) \<longrightarrow>
            hd (entriesOf (js ''outputs'') written) = entry) \<and>
         propOf entry (js ''id'') = Some (JStr ident) \<and>
         propOf entry (js ''url'') = Some (JStr (js ''outputs/'' @ ident @ js ''.'' @ ext))))"
proof (intro conjI impI; elim conjE)
  assume run: "handleToolUpload req env rt = (resp, rt')" and success: "status resp = 200"
  from toolUpload_success [OF run success] obtain fd data written where
    written: "prependEntry (js ''tools'')
        (toolJson \<lparr>t_id = toolIdent (unicode rt) data (fst (generateRandomString 6 rt)),
                  t_author = nickname data, t_name = toolName data,
                  t_description = toolDescription data, t_model = modelUsed data,
                  t_url = js ''tools/'' @ toolIdent (unicode rt) data (fst (generateRandomString 6 rt))
                            @ js ''.js'',
                  t_uploadedAt = clock rt\<rparr>)
        (storedManifest (replies rt 1)) = Inr written"
    and resp: "resp = jsonResponse (SuccessResponse
          (toolIdent (unicode rt) data (fst (generateRandomString 6 rt)) @ js ''.js'') (galleryUrl env)) 200"
    and calls: "callsSince rt rt' =
        [PutFile (contentsUrl (GITHUB_OWNER env) (GITHUB_REPO env)
            (ACTIVE_WORKSHOP_SLUG env @ js ''/tools/'' @
             toolIdent (unicode rt) data (fst (generateRandomString 6 rt)) @ js ''.js''))
           (TextContent (file_data (toolFile data))) (js ''Add sketch by '' @ nickname data) None,
         GetFile (contentsUrl (GITHUB_OWNER env) (GITHUB_REPO env) (ACTIVE_WORKSHOP_SLUG env @ js ''/manifest.json'')),
         PutFile (contentsUrl (GITHUB_OWNER env) (GITHUB_REPO env) (ACTIVE_WORKSHOP_SLUG env @ js ''/manifest.json''))
           (ManifestContent written) (js ''Update manifest with new tool'') (storedVersion (replies rt 1))]"
    by blast
  let ?entry = "toolJson \<lparr>t_id = toolIdent (unicode rt) data (fst (generateRandomString 6 rt)),
                  t_author = nickname data, t_name = toolName data,
                  t_description = toolDescription data, t_model = modelUsed data,
                  t_url = js ''tools/'' @ toolIdent (unicode rt) data (fst (generateRandomString 6 rt))
                            @ js ''.js'',
                  t_uploadedAt = clock rt\<rparr>"
  have path: "js ''/tools/'' = js ''/'' @ js ''tools/''"
    by (simp add: js_append [symmetric])
  have head: "\<not> isArray (storedManifest (replies rt 1)) \<longrightarrow> hd (entriesOf (js ''tools'') written) = ?entry"
    using prependEntry_Inr [OF written] by simp
  from resp calls written head show "\<exists>ident entry payload message written version.
         body resp = Some (SuccessResponse (ident @ js ''.js'') (galleryUrl env)) \<and>
         callsSince rt rt' ! 0 =
           PutFile (contentsUrl (GITHUB_OWNER env) (GITHUB_REPO env)
                      (ACTIVE_WORKSHOP_SLUG env @ js ''/'' @ js ''tools/'' @ ident @ js ''.js''))
             payload message None \<and>
         callsSince rt rt' ! 2 =
           PutFile (contentsUrl (GITHUB_OWNER env) (GITHUB_REPO env)
                      (ACTIVE_WORKSHOP_SLUG env @ js ''/manifest.json''))
             (ManifestContent written) (js ''Update manifest with new tool'') version \<and>
         prependEntry (js ''tools'') entry (storedManifest (replies rt 1)) = Inr written \<and>
         (\<not> isArray (storedManifest (replies rt 1)) \<longrightarrow>
            hd (entriesOf (js ''tools'') written) = entry) \<and>
         propOf entry (js ''id'') = Some (JStr ident) \<and>
         propOf entry (js ''url'') = Some (JStr (js ''tools/'' @ ident @ js ''.js''))"
    by (intro exI [of _ "toolIdent (unicode rt) data (fst (generateRandomString 6 rt))"]
          exI [of _ ?entry]
          exI [of _ "TextContent (file_data (toolFile data))"]
          exI [of _ "js ''Add sketch by '' @ nickname data"] exI [of _ written]
          exI [of _ "storedVersion (replies rt 1)"])
       (simp add: jsonResponse_def propOf_toolJson path)
next
  assume run: "handleOutputUpload req env rt = (resp, rt')" and success: "status resp = 200"
  from outputUpload_success [OF run success] obtain fd data tool written where
    fd: "req_form req = Some fd"
    and data: "uploadOutputSchema (map_of fd (js ''toolId'')) (map_of fd (js ''outputFile'')) = Inr data"
    and written: "prependEntry (js ''outputs'')
        (outputJson \<lparr>o_id = outputIdent (unicode rt) data (fst (generateRandomString 6 rt)),
                    o_toolId = toolId data, o_toolUrl = urlOf tool,
                    o_url = js ''outputs/'' @ outputIdent (unicode rt) data (fst (generateRandomString 6 rt))
                              @ js ''.'' @ extensionOf data,
                    o_createdAt = clock rt\<rparr>)
        (storedManifest (replies rt 2)) = Inr written"
    and resp: "resp = jsonResponse (SuccessResponse
          (outputIdent (unicode rt) data (fst (generateRandomString 6 rt)) @ js ''.'' @ extensionOf data)
          (galleryUrl env)) 200"
    and calls: "callsSince rt rt' =
        [GetFile (contentsUrl (GITHUB_OWNER env) (GITHUB_REPO env) (ACTIVE_WORKSHOP_SLUG env @ js ''/manifest.json'')),
         PutFile (contentsUrl (GITHUB_OWNER env) (GITHUB_REPO env)
            (ACTIVE_WORKSHOP_SLUG env @ js ''/outputs/'' @
             outputIdent (unicode rt) data (fst (generateRandomString 6 rt)) @ js ''.'' @ extensionOf data))
           (BinaryContent (file_data (outputFile data))) (js ''Add output for '' @ toolId data) None,
         GetFile (contentsUrl (GITHUB_OWNER env) (GITHUB_REPO env) (ACTIVE_WORKSHOP_SLUG env @ js ''/manifest.json'')),
         PutFile (contentsUrl (GITHUB_OWNER env) (GITHUB_REPO env) (ACTIVE_WORKSHOP_SLUG env @ js ''/manifest.json''))
           (ManifestContent written) (js ''Update manifest with new output'') (storedVersion (replies rt 2))]"
    by blast
  let ?entry = "outputJson \<lparr>o_id = outputIdent (unicode rt) data (fst (generateRandomString 6 rt)),
                    o_toolId = toolId data, o_toolUrl = urlOf tool,
                    o_url = js ''outputs/'' @ outputIdent (unicode rt) data (fst (generateRandomString 6 rt))
                              @ js ''.'' @ extensionOf data,
                    o_createdAt = clock rt\<rparr>"
  have path: "js ''/outputs/'' = js ''/'' @ js ''outputs/''"
    by (simp add: js_append [symmetric])
  have head: "\<not> isArray (storedManifest (replies rt 2)) \<longrightarrow> hd (entriesOf (js ''outputs'') written) = ?entry"
    using prependEntry_Inr [OF written] by simp
  note validated_output [OF data]
  with fd resp calls written head show "\<exists>fd f ext ident entry payload message written version.
         req_form req = Some fd \<and> map_of fd (js ''outputFile'') = Some (FormFile f) \<and>
         map_of mimeToExt (file_type f) = Some ext \<and>
         body resp = Some (SuccessResponse (ident @ js ''.'' @ ext) (galleryUrl env)) \<and>
         callsSince rt rt' ! 1 =
           PutFile (contentsUrl (GITHUB_OWNER env) (GITHUB_REPO env)
                      (ACTIVE_WORKSHOP_SLUG env @ js ''/'' @ js ''outputs/'' @ ident @ js ''.'' @ ext))
             payload message None \<and>
         callsSince rt rt' ! 3 =
           PutFile (contentsUrl (GITHUB_OWNER env) (GITHUB_REPO env)
                      (ACTIVE_WORKSHOP_SLUG env @ js ''/manifest.json''))
             (ManifestContent written) (js ''Update manifest with new output'') version \<and>
         prependEntry (js ''outputs'') entry (storedManifest (replies rt 2)) = Inr written \<and>
         (\<not> isArray (storedManifest (replies rt 2)) \<longrightarrow>
            hd (entriesOf (js ''outputs'') written) = entry) \<and>
         propOf entry (js ''id'') = Some (JStr ident) \<and>
         propOf entry (js ''url'') = Some (JStr (js ''outputs/'' @ ident @ js ''.'' @ ext))"
    by (intro exI [of _ fd] exI [of _ "outputFile data"] exI [of _ "extensionOf data"]
          exI [of _ "outputIdent (unicode rt) data (fst (generateRandomString 6 rt))"]
          exI [of _ ?entry]
          exI [of _ "BinaryContent (file_data (outputFile data))"]
          exI [of _ "js ''Add output for '' @ toolId data"] exI [of _ written]
          exI [of _ "storedVersion (replies rt 2)"])
       (simp add: jsonResponse_def propOf_outputJson path numeral_3_eq_3)
qed

theorem names_cohere_witness:
  "fst (handleToolUpload exampleToolRequest exampleEnv
      (runtimeOf [Reply 201 (FileObject None []),
                  Reply 200 (FileObject (Some exampleManifest) (js ''v1'')),
                  Reply 200 (FileObject None [])]))
     = jsonResponse (SuccessResponse (js ''ada-l-my-sketch-dkry5c.js'') (js ''https://o.github.io/r/w/'')) 200 \<and>
   (\<exists>payload message written version.
      callsSince
        (runtimeOf [Reply 201 (FileObject None []),
                  Reply 200 (FileObject (Some exampleManifest) (js ''v1'')),
                  Reply 200 (FileObject None [])])
        (snd (handleToolUpload exampleToolRequest exampleEnv
           (runtimeOf [Reply 201 (FileObject None []),
                  Reply 200 (FileObject (Some exampleManifest) (js ''v1'')),
                  Reply 200 (FileObject None [])]))) ! 0 =
        PutFile (js ''https://api.github.com/repos/o/r/contents/w/tools/ada-l-my-sketch-dkry5c.js'')
          payload message None \<and>
      callsSince
        (runtimeOf [Reply 201 (FileObject None []),
                  Reply 200 (FileObject (Some exampleManifest) (js ''v1'')),
                  Reply 200 (FileObject None [])])
        (snd (handleToolUpload exampleToolRequest exampleEnv
           (runtimeOf [Reply 201 (FileObject None []),
                  Reply 200 (FileObject (Some exampleManifest) (js ''v1'')),
                  Reply 200 (FileObject None [])]))) ! 2 =
        PutFile (js ''https://api.github.com/repos/o/r/contents/w/manifest.json'')
          (ManifestContent written) (js ''Update manifest with new tool'') version \<and>
      propOf (hd (entriesOf (js ''tools'') written)) (js ''id'')
        = Some (JStr (js ''ada-l-my-sketch-dkry5c'')) \<and>
      propOf (hd (entriesOf (js ''tools'') written)) (js ''url'')
        = Some (JStr (js ''tools/ada-l-my-sketch-dkry5c.js''))) \<and>
   fst (handleOutputUpload exampleOutputRequest exampleEnv
      (runtimeOf [Reply 200 (FileObject (Some exampleManifest) (js ''v1'')),
                  Reply 201 (FileObject None []),
                  Reply 200 (FileObject (Some exampleManifest) (js ''v2'')),
                  Reply 200 (FileObject None [])]))
     = jsonResponse (SuccessResponse (js ''run-1-final-dkry5c.png'') (js ''https://o.github.io/r/w/'')) 200 \<and>
   (\<exists>payload message written version.
      callsSince
        (runtimeOf [Reply 200 (FileObject (Some exampleManifest) (js ''v1'')),
                  Reply 201 (FileObject None []),
                  Reply 200 (FileObject (Some exampleManifest) (js ''v2'')),
                  Reply 200 (FileObject None [])])
        (snd (handleOutputUpload exampleOutputRequest exampleEnv
           (runtimeOf [Reply 200 (FileObject (Some exampleManifest) (js ''v1'')),
                  Reply 201 (FileObject None []),
                  Reply 200 (FileObject (Some exampleManifest) (js ''v2'')),
                  Reply 200 (FileObject None [])]))) ! 1 =
        PutFile (js ''https://api.github.com/repos/o/r/contents/w/outputs/run-1-final-dkry5c.png'')
          payload message None \<and>
      callsSince
        (runtimeOf [Reply 200 (FileObject (Some exampleManifest) (js ''v1'')),
                  Reply 201 (FileObject None []),
                  Reply 200 (FileObject (Some exampleManifest) (js ''v2'')),
                  Reply 200 (FileObject None [])])
        (snd (handleOutputUpload exampleOutputRequest exampleEnv
           (runtimeOf [Reply 200 (FileObject (Some exampleManifest) (js ''v1'')),
                  Reply 201 (FileObject None []),
                  Reply 200 (FileObject (Some exampleManifest) (js ''v2'')),
                  Reply 200 (FileObject None [])]))) ! 3 =
        PutFile (js ''https://api.github.com/repos/o/r/contents/w/manifest.json'')
          (ManifestContent written) (js ''Update manifest with new output'') version \<and>
      propOf (hd (entriesOf (js ''outputs'') written)) (js ''id'')
        = Some (JStr (js ''run-1-final-dkry5c'')) \<and>
      propOf (hd (entriesOf (js ''outputs'') written)) (js ''url'')
        = Some (JStr (js ''outputs/run-1-final-dkry5c.png'')))"
proof -
  let ?rt = "runtimeOf [Reply 201 (FileObject None []),
                  Reply 200 (FileObject (Some exampleManifest) (js ''v1'')),
                  Reply 200 (FileObject None [])]"
  let ?ro = "runtimeOf [Reply 200 (FileObject (Some exampleManifest) (js ''v1'')),
                  Reply 201 (FileObject None []),
                  Reply 200 (FileObject (Some exampleManifest) (js ''v2'')),
                  Reply 200 (FileObject None [])]"
  have t: "fst (handleToolUpload exampleToolRequest exampleEnv ?rt)
     = jsonResponse (SuccessResponse (js ''ada-l-my-sketch-dkry5c.js'') (js ''https://o.github.io/r/w/'')) 200"
    by code_simp
  have ts: "status (fst (handleToolUpload exampleToolRequest exampleEnv ?rt)) = 200"
    by (simp add: t jsonResponse_def)
  have tn: "\<not> isArray (storedManifest (replies ?rt 1))"
    by (simp add: runtimeOf_def scripted_def ok_def exampleManifest_def)
  have o: "fst (handleOutputUpload exampleOutputRequest exampleEnv ?ro)
     = jsonResponse (SuccessResponse (js ''run-1-final-dkry5c.png'') (js ''https://o.github.io/r/w/'')) 200"
    by code_simp
  have os: "status (fst (handleOutputUpload exampleOutputRequest exampleEnv ?ro)) = 200"
    by (simp add: o jsonResponse_def)
  have on: "\<not> isArray (storedManifest (replies ?ro 2))"
    by (simp add: runtimeOf_def scripted_def ok_def exampleManifest_def)
  have env: "GITHUB_OWNER exampleEnv = js ''o''" "GITHUB_REPO exampleEnv = js ''r''"
    "ACTIVE_WORKSHOP_SLUG exampleEnv = js ''w''"
    by (simp_all add: exampleEnv_def)
  have lit: "js a @ js b = js (a @ b)" for a b by (simp add: js_append)
  have tail: "ident @ js ''.js'' = js ''ada-l-my-sketch-dkry5c.js'' \<Longrightarrow> ident = js ''ada-l-my-sketch-dkry5c''"
    for ident
    by (simp add: js_def append_eq_append_conv_if split: if_splits)
  from names_cohere [THEN conjunct1, THEN mp, OF conjI [OF prod.collapse [symmetric] ts]]
  obtain ident entry payload message written version where
    b: "body (fst (handleToolUpload exampleToolRequest exampleEnv ?rt))
          = Some (SuccessResponse (ident @ js ''.js'') (galleryUrl exampleEnv))"
    and c0: "callsSince ?rt (snd (handleToolUpload exampleToolRequest exampleEnv ?rt)) ! 0 =
           PutFile (contentsUrl (GITHUB_OWNER exampleEnv) (GITHUB_REPO exampleEnv)
                      (ACTIVE_WORKSHOP_SLUG exampleEnv @ js ''/'' @ js ''tools/'' @ ident @ js ''.js''))
             payload message None"
    and c2: "callsSince ?rt (snd (handleToolUpload exampleToolRequest exampleEnv ?rt)) ! 2 =
           PutFile (contentsUrl (GITHUB_OWNER exampleEnv) (GITHUB_REPO exampleEnv)
                      (ACTIVE_WORKSHOP_SLUG exampleEnv @ js ''/manifest.json''))
             (ManifestContent written) (js ''Update manifest with new tool'') version"
    and h: "\<not> isArray (storedManifest (replies ?rt 1)) \<longrightarrow>
            hd (entriesOf (js ''tools'') written) = entry"
    and i: "propOf entry (js ''id'') = Some (JStr ident)"
    and u: "propOf entry (js ''url'') = Some (JStr (js ''tools/'' @ ident @ js ''.js''))"
    by blast
  from h tn have h: "hd (entriesOf (js ''tools'') written) = entry" by (rule mp)
  note i = i [folded h] and u = u [folded h]
  from b t have "ident @ js ''.js'' = js ''ada-l-my-sketch-dkry5c.js''"
    by (simp add: jsonResponse_def)
  then have ident: "ident = js ''ada-l-my-sketch-dkry5c''" by (rule tail)
  have tool: "\<exists>payload message written version.
      callsSince ?rt (snd (handleToolUpload exampleToolRequest exampleEnv ?rt)) ! 0 =
        PutFile (js ''https://api.github.com/repos/o/r/contents/w/tools/ada-l-my-sketch-dkry5c.js'')
          payload message None \<and>
      callsSince ?rt (snd (handleToolUpload exampleToolRequest exampleEnv ?rt)) ! 2 =
        PutFile (js ''https://api.github.com/repos/o/r/contents/w/manifest.json'')
          (ManifestContent written) (js ''Update manifest with new tool'') version \<and>
      propOf (hd (entriesOf (js ''tools'') written)) (js ''id'')
        = Some (JStr (js ''ada-l-my-sketch-dkry5c'')) \<and>
      propOf (hd (entriesOf (js ''tools'') written)) (js ''url'')
        = Some (JStr (js ''tools/ada-l-my-sketch-dkry5c.js''))"
    using c0 c2 i u unfolding ident env contentsUrl_def lit
    by (intro exI [of _ payload] exI [of _ message] exI [of _ written] exI [of _ version]) simp
  have otail: "ident @ js ''.'' @ ext = js ''run-1-final-dkry5c.png'' \<Longrightarrow> ext = js ''png'' \<Longrightarrow>
      ident = js ''run-1-final-dkry5c''" for ident ext
    by (simp add: js_def append_eq_append_conv_if split: if_splits)
  from names_cohere [THEN conjunct2, THEN mp, OF conjI [OF prod.collapse [symmetric] os]]
  obtain fd f ext ident' entry' payload' message' written' version' where
    fd: "req_form exampleOutputRequest = Some fd"
    and f: "map_of fd (js ''outputFile'') = Some (FormFile f)"
    and ext: "map_of mimeToExt (file_type f) = Some ext"
    and b': "body (fst (handleOutputUpload exampleOutputRequest exampleEnv ?ro))
          = Some (SuccessResponse (ident' @ js ''.'' @ ext) (galleryUrl exampleEnv))"
    and c1: "callsSince ?ro (snd (handleOutputUpload exampleOutputRequest exampleEnv ?ro)) ! 1 =
           PutFile (contentsUrl (GITHUB_OWNER exampleEnv) (GITHUB_REPO exampleEnv)
                      (ACTIVE_WORKSHOP_SLUG exampleEnv @ js ''/'' @ js ''outputs/'' @ ident' @ js ''.'' @ ext))
             payload' message' None"
    and c3: "callsSince ?ro (snd (handleOutputUpload exampleOutputRequest exampleEnv ?ro)) ! 3 =
           PutFile (contentsUrl (GITHUB_OWNER exampleEnv) (GITHUB_REPO exampleEnv)
                      (ACTIVE_WORKSHOP_SLUG exampleEnv @ js ''/manifest.json''))
             (ManifestContent written') (js ''Update manifest with new output'') version'"
    and h': "\<not> isArray (storedManifest (replies ?ro 2)) \<longrightarrow>
            hd (entriesOf (js ''outputs'') written') = entry'"
    and i': "propOf entry' (js ''id'') = Some (JStr ident')"
    and u': "propOf entry' (js ''url'') = Some (JStr (js ''outputs/'' @ ident' @ js ''.'' @ ext))"
    by blast
  from h' on have h': "hd (entriesOf (js ''outputs'') written') = entry'" by (rule mp)
  note i' = i' [folded h'] and u' = u' [folded h']
  from fd f ext have e: "ext = js ''png''"
    by (auto simp: exampleOutputRequest_def mimeToExt_def js_inj)
  from b' o have "ident' @ js ''.'' @ ext = js ''run-1-final-dkry5c.png''"
    by (simp add: jsonResponse_def)
  then have ident': "ident' = js ''run-1-final-dkry5c''" using e by (rule otail)
  have "output": "\<exists>payload message written version.
      callsSince ?ro (snd (handleOutputUpload exampleOutputRequest exampleEnv ?ro)) ! 1 =
        PutFile (js ''https://api.github.com/repos/o/r/contents/w/outputs/run-1-final-dkry5c.png'')
          payload message None \<and>
      callsSince ?ro (snd (handleOutputUpload exampleOutputRequest exampleEnv ?ro)) ! 3 =
        PutFile (js ''https://api.github.com/repos/o/r/contents/w/manifest.json'')
          (ManifestContent written) (js ''Update manifest with new output'') version \<and>
      propOf (hd (entriesOf (js ''outputs'') written)) (js ''id'')
        = Some (JStr (js ''run-1-final-dkry5c'')) \<and>
      propOf (hd (entriesOf (js ''outputs'') written)) (js ''url'')
        = Some (JStr (js ''outputs/run-1-final-dkry5c.png''))"
    using c1 c3 i' u' unfolding ident' e env contentsUrl_def lit
    by (intro exI [of _ payload'] exI [of _ message'] exI [of _ written'] exI [of _ version']) simp
  from t tool o "output" show ?thesis by (intro conjI)
qed


end
